theory Spec2Isabelle
  imports Complex_Main "HOL-Library.AList"
begin

section \<open>Calendar dates\<close>

text \<open>
  A JavaScript \<open>Date\<close> is read and written by the program through its local-time fields
  only (\<open>getFullYear\<close>, \<open>getMonth\<close>, \<open>getDate\<close>, \<open>setHours\<close>, \<open>setMonth\<close>,
  \<open>setDate\<close>) and compared as an instant. The model keeps the local calendar fields: the
  year, the 0-based month, the day of the month and the milliseconds since local midnight.
  The deployment's zone (Asia/Calcutta) has no daylight saving, so the order of instants is
  the lexicographic order of the fields.
\<close>

record jsdate =
  getFullYear :: int
  getMonth :: nat
  getDate :: nat
  timeInDay :: int

definition monthIndex :: "jsdate \<Rightarrow> int" where
  "monthIndex d = getFullYear d * 12 + int (getMonth d)"

text \<open>\<open>a <= b\<close> and \<open>a < b\<close> on two dates.\<close>

definition date_le :: "jsdate \<Rightarrow> jsdate \<Rightarrow> bool" where
  "date_le a b =
     (monthIndex a < monthIndex b \<or>
      (monthIndex a = monthIndex b \<and>
       (getDate a < getDate b \<or> (getDate a = getDate b \<and> timeInDay a \<le> timeInDay b))))"

definition date_lt :: "jsdate \<Rightarrow> jsdate \<Rightarrow> bool" where
  "date_lt a b =
     (monthIndex a < monthIndex b \<or>
      (monthIndex a = monthIndex b \<and>
       (getDate a < getDate b \<or> (getDate a = getDate b \<and> timeInDay a < timeInDay b))))"

definition isLeapYear :: "int \<Rightarrow> bool" where
  "isLeapYear y = (y mod 4 = 0 \<and> (y mod 100 \<noteq> 0 \<or> y mod 400 = 0))"

definition daysInMonth :: "int \<Rightarrow> nat \<Rightarrow> nat" where
  "daysInMonth y m =
     (if m = 1 then (if isLeapYear y then 29 else 28)
      else if m = 3 \<or> m = 5 \<or> m = 8 \<or> m = 10 then 30 else 31)"

text \<open>
  ECMAScript \<open>MakeDay(year, month, date)\<close>: the month carries into the year, and a day past
  the end of the month carries into the following months (31 February 2025 is 3 March 2025).
  The program only passes days from 1 on.
\<close>

function carryDay :: "int \<Rightarrow> nat \<Rightarrow> nat \<Rightarrow> int \<times> nat \<times> nat" where
  "carryDay y m d =
     (if d \<le> daysInMonth y m then (y, m, d)
      else if m \<ge> 11 then carryDay (y + 1) 0 (d - daysInMonth y m)
      else carryDay y (m + 1) (d - daysInMonth y m))"
  by pat_completeness auto
termination
  by (relation "measure (\<lambda>(y, m, d). d)") (auto simp: daysInMonth_def)

declare carryDay.simps [simp del]

definition MakeDay :: "int \<Rightarrow> nat \<Rightarrow> nat \<Rightarrow> int \<Rightarrow> jsdate" where
  "MakeDay y m d t =
     (case carryDay (y + int (m div 12)) (m mod 12) d of
        (y', m', d') \<Rightarrow> \<lparr>getFullYear = y', getMonth = m', getDate = d', timeInDay = t\<rparr>)"

text \<open>
  \<open>new Date(year, monthIndex, day, hours, 0, 0, 0)\<close>. A year from 0 to 99 means 1900 + year.
\<close>

definition newDate :: "int \<Rightarrow> nat \<Rightarrow> nat \<Rightarrow> int \<Rightarrow> jsdate" where
  "newDate y m d h = MakeDay (if 0 \<le> y \<and> y \<le> 99 then 1900 + y else y) m d (h * 3600000)"

text \<open>\<open>d.setMonth(m)\<close> and \<open>d.setDate(n)\<close>, returning the updated date.\<close>

definition setMonth :: "jsdate \<Rightarrow> nat \<Rightarrow> jsdate" where
  "setMonth d m = MakeDay (getFullYear d) m (getDate d) (timeInDay d)"

definition setDate :: "jsdate \<Rightarrow> nat \<Rightarrow> jsdate" where
  "setDate d n = MakeDay (getFullYear d) (getMonth d) n (timeInDay d)"

section \<open>The date service\<close>

datatype exn =
    InvalidQuarter int
  | NetworkError
  | MissingData
  | TypeError
  | InvalidFormat

record QuarterInfo =
  quarter :: int
  year :: int
  qStartDate :: jsdate
  qEndDate :: jsdate

text \<open>
  The label of a range is a template literal; the model keeps which template it is and the
  values in its holes.
\<close>

datatype rangeLabel =
    CurrentQuarterLabel int int
  | LastQuarterLabel int int
  | FixedQuarterLabel int int
  | CustomLabel jsdate jsdate

record DateRange =
  startDate :: jsdate
  endDate :: jsdate
  label :: rangeLabel

definition mkQuarter :: "int \<Rightarrow> int \<Rightarrow> nat \<Rightarrow> nat \<Rightarrow> nat \<Rightarrow> QuarterInfo" where
  "mkQuarter q y startMonth endMonth endDay =
     \<lparr>quarter = q, year = y,
      qStartDate = newDate y startMonth 1 8,
      qEndDate = newDate y endMonth endDay 8\<rparr>"

definition getQuarterDates :: "int \<Rightarrow> int \<Rightarrow> exn + QuarterInfo" where
  "getQuarterDates q y =
     (if q = 1 then Inr (mkQuarter q y 0 2 31)
      else if q = 2 then Inr (mkQuarter q y 3 5 30)
      else if q = 3 then Inr (mkQuarter q y 6 8 30)
      else if q = 4 then Inr (mkQuarter q y 9 11 31)
      else Inl (InvalidQuarter q))"

text \<open>
  The clock is a parameter: \<open>now\<close> is the value of \<open>new Date()\<close>. An omitted \<open>year\<close>
  argument (\<open>None\<close>) defaults to the clock's year.
\<close>

definition getCurrentQuarterNumber :: "jsdate \<Rightarrow> int" where
  "getCurrentQuarterNumber now =
     (let currentMonth = getMonth now + 1 in
      if 1 \<le> currentMonth \<and> currentMonth \<le> 3 then 1
      else if 4 \<le> currentMonth \<and> currentMonth \<le> 6 then 2
      else if 7 \<le> currentMonth \<and> currentMonth \<le> 9 then 3
      else 4)"

definition getCurrentQuarter :: "jsdate \<Rightarrow> int \<Rightarrow> exn + QuarterInfo" where
  "getCurrentQuarter now y = getQuarterDates (getCurrentQuarterNumber now) y"

definition getPreviousQuarter :: "jsdate \<Rightarrow> int \<Rightarrow> exn + QuarterInfo" where
  "getPreviousQuarter now y =
     (case getCurrentQuarter now y of
        Inl e \<Rightarrow> Inl e
      | Inr currentQuarter \<Rightarrow>
          if quarter currentQuarter = 1 then getQuarterDates 4 (y - 1)
          else getQuarterDates (quarter currentQuarter - 1) y)"

definition at8AM :: "jsdate \<Rightarrow> jsdate" where
  "at8AM d = newDate (getFullYear d) (getMonth d) (getDate d) 8"

definition fixedQuarterRange :: "int \<Rightarrow> int \<Rightarrow> exn + DateRange" where
  "fixedQuarterRange n y =
     (case getQuarterDates n y of
        Inl e \<Rightarrow> Inl e
      | Inr q \<Rightarrow> Inr \<lparr>startDate = qStartDate q, endDate = qEndDate q,
                      label = FixedQuarterLabel n y\<rparr>)"

definition getDateRangeForTimePeriod ::
  "jsdate \<Rightarrow> string \<Rightarrow> jsdate option \<Rightarrow> jsdate option \<Rightarrow> int option \<Rightarrow> exn + DateRange" where
  "getDateRangeForTimePeriod now timePeriod customStartDate customEndDate yearArg =
     (let y = (case yearArg of None \<Rightarrow> getFullYear now | Some v \<Rightarrow> v) in
      if timePeriod = ''current-quarter'' then
        (case getCurrentQuarter now y of
           Inl e \<Rightarrow> Inl e
         | Inr currentQuarter \<Rightarrow>
             Inr \<lparr>startDate = qStartDate currentQuarter,
                  endDate =
                    (if date_le (qStartDate currentQuarter) now \<and>
                        date_le now (qEndDate currentQuarter)
                     then at8AM now else qEndDate currentQuarter),
                  label = CurrentQuarterLabel (quarter currentQuarter) y\<rparr>)
      else if timePeriod = ''last-quarter'' then
        (case getPreviousQuarter now y of
           Inl e \<Rightarrow> Inl e
         | Inr lastQuarter \<Rightarrow>
             Inr \<lparr>startDate = qStartDate lastQuarter, endDate = qEndDate lastQuarter,
                  label = LastQuarterLabel (quarter lastQuarter) (year lastQuarter)\<rparr>)
      else if timePeriod = ''q1'' then fixedQuarterRange 1 y
      else if timePeriod = ''q2'' then fixedQuarterRange 2 y
      else if timePeriod = ''q3'' then fixedQuarterRange 3 y
      else if timePeriod = ''q4'' then fixedQuarterRange 4 y
      else if timePeriod = ''custom'' then
        (let s = (case customStartDate of Some c \<Rightarrow> at8AM c | None \<Rightarrow> newDate y 0 1 8);
             e = (case customEndDate of Some c \<Rightarrow> at8AM c | None \<Rightarrow> at8AM now)
         in Inr \<lparr>startDate = s, endDate = e, label = CustomLabel s e\<rparr>)
      else
        (case getCurrentQuarter now y of
           Inl e \<Rightarrow> Inl e
         | Inr currentQuarter \<Rightarrow>
             Inr \<lparr>startDate = qStartDate currentQuarter, endDate = now,
                  label = CurrentQuarterLabel (quarter currentQuarter) y\<rparr>))"

section \<open>JavaScript values\<close>

text \<open>
  A field of a fetched row is absent, \<open>null\<close>, a number or a string. Numbers are exact
  reals: IEEE rounding and the infinities are outside the model, and \<open>NaN\<close> is \<open>None\<close>
  where a conversion can produce it.

  Reading a string as a number (\<open>Number(s)\<close>, \<open>parseFloat(s)\<close>) and printing a number
  (\<open>String(n)\<close>) are functions of the language, not of this program; they are parameters
  of the model, and the properties proved below hold for every choice of them.
\<close>

datatype jsval = JUndefined | JNull | JNum real | JStr string

record builtins =
  StringToNumber :: "string \<Rightarrow> real option"
  NumberToString :: "real \<Rightarrow> string"
  parseFloat :: "string \<Rightarrow> real option"

fun truthy :: "jsval \<Rightarrow> bool" where
  "truthy JUndefined = False"
| "truthy JNull = False"
| "truthy (JNum r) = (r \<noteq> 0)"
| "truthy (JStr s) = (s \<noteq> [])"

text \<open>\<open>a || b\<close>\<close>

definition orElse :: "jsval \<Rightarrow> jsval \<Rightarrow> jsval" where
  "orElse a b = (if truthy a then a else b)"

fun Number :: "builtins \<Rightarrow> jsval \<Rightarrow> real option" where
  "Number B JUndefined = None"
| "Number B JNull = Some 0"
| "Number B (JNum r) = Some r"
| "Number B (JStr s) = StringToNumber B s"

fun toString :: "builtins \<Rightarrow> jsval \<Rightarrow> string" where
  "toString B JUndefined = ''undefined''"
| "toString B JNull = ''null''"
| "toString B (JNum r) = NumberToString B r"
| "toString B (JStr s) = s"

text \<open>
  \<open>n > 0\<close>, \<open>isNaN(n)\<close> and \<open>n <= 0\<close> on the result of a conversion; the comparisons are
  false on \<open>NaN\<close>.
\<close>

definition isPositive :: "real option \<Rightarrow> bool" where
  "isPositive n = (case n of None \<Rightarrow> False | Some v \<Rightarrow> v > 0)"

definition isNaN :: "real option \<Rightarrow> bool" where
  "isNaN n = (n = None)"

definition isAtMostZero :: "real option \<Rightarrow> bool" where
  "isAtMostZero n = (case n of None \<Rightarrow> False | Some v \<Rightarrow> v \<le> 0)"

text \<open>Strings are sequences of ASCII characters.\<close>

text \<open>
  \<open>trim\<close> removes white space at both ends; strings are 8-bit here, so the white space is
  the blank and the control characters tab, line feed, vertical tab, form feed and
  carriage return.
\<close>

definition isWhiteSpace :: "char \<Rightarrow> bool" where
  "isWhiteSpace c = (c \<in> set [CHR '' '', CHR 0x09, CHR 0x0A, CHR 0x0B, CHR 0x0C, CHR 0x0D])"

definition trim :: "string \<Rightarrow> string" where
  "trim s = rev (dropWhile isWhiteSpace (rev (dropWhile isWhiteSpace s)))"

definition upperChar :: "char \<Rightarrow> char" where
  "upperChar c =
     (case map_of (zip ''abcdefghijklmnopqrstuvwxyz'' ''ABCDEFGHIJKLMNOPQRSTUVWXYZ'') c of
        Some u \<Rightarrow> u
      | None \<Rightarrow> c)"

definition toUpperCase :: "string \<Rightarrow> string" where
  "toUpperCase s = map upperChar s"

fun startsWith :: "string \<Rightarrow> string \<Rightarrow> bool" where
  "startsWith s [] = True"
| "startsWith [] (c # t) = False"
| "startsWith (d # s) (c # t) = (d = c \<and> startsWith s t)"

text \<open>\<open>s.includes(t)\<close>\<close>

fun includesStr :: "string \<Rightarrow> string \<Rightarrow> bool" where
  "includesStr [] t = (t = [])"
| "includesStr (d # s) t = (startsWith (d # s) t \<or> includesStr s t)"

text \<open>\<open>Math.round(x)\<close>: the nearest integer, halves upwards.\<close>

definition Math_round :: "real \<Rightarrow> real" where
  "Math_round x = of_int \<lfloor>x + 1 / 2\<rfloor>"

text \<open>\<open>Math.round(x * 100) / 100\<close>\<close>

definition roundTo2 :: "real \<Rightarrow> real" where
  "roundTo2 x = Math_round (x * 100) / 100"

section \<open>Rows and responses of the document store\<close>

text \<open>
  The \<open>timestamp\<close> of a row is a string that the program only ever passes to
  \<open>new Date\<close>; the model keeps what that yields: nothing for an absent or empty string,
  an invalid date for an unparseable one, or the date.
\<close>

datatype stamp = NoStamp | BadStamp | Stamp jsdate

record fields =
  D0 :: jsval
  D2 :: jsval
  D6 :: jsval
  D9 :: jsval
  D10 :: jsval
  D17 :: jsval
  D52 :: jsval
  D53 :: jsval

text \<open>
  \<open>otherStamps\<close> lists the other top-level properties of the row (\<open>createdAt\<close>,
  \<open>ts\<close>, ...) by name, each read as a date.
\<close>

record MongoDataRow =
  data :: "fields option"
  timestamp :: stamp
  otherStamps :: "(string \<times> stamp) list"

text \<open>\<open>row.data?.F\<close>\<close>

definition field :: "(fields \<Rightarrow> jsval) \<Rightarrow> MongoDataRow \<Rightarrow> jsval" where
  "field F row = (case data row of None \<Rightarrow> JUndefined | Some f \<Rightarrow> F f)"

text \<open>
  What a request to the store yields: the request fails; or it resolves with a body
  (\<open>response.data\<close>) that is falsy, is itself an array of rows, or is an object whose
  \<open>data\<close> property is falsy, is truthy but no array, or is an array of rows.
\<close>

datatype response =
    Rejected
  | EmptyBody
  | BareRows "MongoDataRow list"
  | NoData
  | NotAnArray
  | Rows "MongoDataRow list"

text \<open>
  \<open>Math.random()\<close> is a parameter: \<open>rnd k\<close> is the value of the \<open>k\<close>-th call made by
  the operation at hand, counted from 0.
\<close>

type_synonym random = "nat \<Rightarrow> real"

section \<open>The KPI service\<close>

text \<open>
  The \<open>percentage\<close> of a rejection reason is declared a string. \<open>PercentText r\<close> is the
  string \<open>r.toFixed(1) + '%'\<close>, \<open>ZeroPercentText\<close> the string \<open>'0%'\<close>, and
  \<open>PercentNumber r\<close> the number \<open>r\<close>, which the generated demonstration data stores there.
\<close>

datatype percentageValue = PercentText real | ZeroPercentText | PercentNumber real

record TopRejectionReason =
  reason :: string
  count :: real
  percentage :: percentageValue

record KPIResult =
  totalUnitsProduced :: real
  totalRejection :: real
  postDowntimeDR :: real
  totalDowntime :: real
  moldHealthIndex :: real
  topRejectionReasons :: "TopRejectionReason list"
  documentCount :: real
  dateRange :: "jsdate \<times> jsdate"
  machine :: string
  mould :: string

definition adjustStartDateToCycleTime :: "jsdate \<Rightarrow> jsdate" where
  "adjustStartDateToCycleTime d = d\<lparr>timeInDay := 8 * 3600000\<rparr>"

text \<open>
  The filter by mould name that the KPI, monthly, downtime, rejection and breakdown paths
  share: the row has \<open>data\<close> and a truthy \<open>D17\<close>, and the trimmed \<open>D17\<close> is the trimmed
  selection.
\<close>

definition mouldMatches :: "builtins \<Rightarrow> string \<Rightarrow> MongoDataRow \<Rightarrow> bool" where
  "mouldMatches B selected row =
     (case data row of
        None \<Rightarrow> False
      | Some f \<Rightarrow>
          if \<not> truthy (D17 f) then False
          else trim (toString B (D17 f)) = trim selected)"

text \<open>
  A numeric field that is summed: present, not \<open>null\<close>, and not \<open>NaN\<close> as a number.
  The sum is the exact sum of the values; the rounding of a sum of doubles, which depends
  on the order of the rows, is outside the model.
\<close>

definition validNumber :: "builtins \<Rightarrow> jsval \<Rightarrow> real option" where
  "validNumber B v = (if v \<noteq> JUndefined \<and> v \<noteq> JNull then Number B v else None)"

definition sumValid :: "builtins \<Rightarrow> (fields \<Rightarrow> jsval) \<Rightarrow> MongoDataRow list \<Rightarrow> real" where
  "sumValid B F rows =
     sum_list (map (\<lambda>row. case validNumber B (field F row) of Some v \<Rightarrow> v | None \<Rightarrow> 0) rows)"

subsection \<open>Post-downtime defect rate\<close>

text \<open>
  The comparator of the sort is \<open>getTime(a) - getTime(b)\<close>; it is positive exactly when
  both dates are valid and \<open>b\<close> is earlier. The sort is stable. When every timestamp is
  a valid date the result is the rows in order of time; with an invalid date among them
  the comparator is not an order, the language leaves the result of the sort open, and
  the insertion below is one of the permutations it may return.
\<close>

definition comesAfter :: "MongoDataRow \<Rightarrow> MongoDataRow \<Rightarrow> bool" where
  "comesAfter a b =
     (case (timestamp a, timestamp b) of
        (Stamp ta, Stamp tb) \<Rightarrow> date_lt tb ta
      | _ \<Rightarrow> False)"

fun insertByTime :: "MongoDataRow \<Rightarrow> MongoDataRow list \<Rightarrow> MongoDataRow list" where
  "insertByTime x [] = [x]"
| "insertByTime x (y # ys) =
     (if comesAfter x y then y # insertByTime x ys else x # y # ys)"

definition sortByTime :: "MongoDataRow list \<Rightarrow> MongoDataRow list" where
  "sortByTime rows = foldr insertByTime rows []"

definition downtimeIndicators :: "string list" where
  "downtimeIndicators =
     [''DOWNTIME'', ''DOWN'', ''MAINTENANCE'', ''STOP'', ''OFF'', ''0'', ''STOPPED'']"

definition productionIndicators :: "string list" where
  "productionIndicators =
     [''PRODUCTION'', ''RUN'', ''RUNNING'', ''ACTIVE'', ''ON'', ''1'', ''PRODUCING'']"

definition d2Value :: "builtins \<Rightarrow> MongoDataRow \<Rightarrow> string" where
  "d2Value B doc = toUpperCase (toString B (orElse (field D2 doc) (JStr [])))"

definition isDowntime :: "builtins \<Rightarrow> MongoDataRow \<Rightarrow> bool" where
  "isDowntime B doc =
     list_ex (\<lambda>indicator. includesStr (d2Value B doc) indicator) downtimeIndicators"

definition isProduction :: "builtins \<Rightarrow> MongoDataRow \<Rightarrow> bool" where
  "isProduction B doc =
     (list_ex (\<lambda>indicator. includesStr (d2Value B doc) indicator) productionIndicators \<or>
      (\<not> isDowntime B doc \<and> truthy (field D6 doc) \<and> isPositive (Number B (field D6 doc))))"

text \<open>
  One step of the \<open>forEach\<close> over the sorted rows. The state is the index of the row, the
  variable \<open>lastDowntimeIndex\<close> and the array \<open>postDowntimeDocs\<close>.
\<close>

definition scanStep ::
  "builtins \<Rightarrow> int \<times> int \<times> MongoDataRow list \<Rightarrow> MongoDataRow
   \<Rightarrow> int \<times> int \<times> MongoDataRow list" where
  "scanStep B st doc =
     (case st of (index, lastDowntimeIndex, found) \<Rightarrow>
        let lastDowntimeIndex' = (if isDowntime B doc then index else lastDowntimeIndex) in
        (index + 1, lastDowntimeIndex',
         if isProduction B doc \<and> lastDowntimeIndex' \<ge> 0 \<and> index > lastDowntimeIndex'
         then found @ [doc] else found))"

definition scanDocs :: "builtins \<Rightarrow> MongoDataRow list \<Rightarrow> int \<times> int \<times> MongoDataRow list" where
  "scanDocs B sortedDocs = foldl (scanStep B) (0, - 1, []) sortedDocs"

definition sortedDocs :: "MongoDataRow list \<Rightarrow> MongoDataRow list" where
  "sortedDocs documents = sortByTime (filter (\<lambda>doc. timestamp doc \<noteq> NoStamp) documents)"

definition postDowntimeDocs :: "builtins \<Rightarrow> MongoDataRow list \<Rightarrow> MongoDataRow list" where
  "postDowntimeDocs B documents = snd (snd (scanDocs B (sortedDocs documents)))"

text \<open>
  The value of the variable \<open>lastDowntimeIndex\<close> when the row at position \<open>i\<close> of the scan
  is tested: the greatest position up to \<open>i\<close> whose row is classified as downtime, or -1
  when there is none.
\<close>

definition lastDowntimeAt :: "builtins \<Rightarrow> MongoDataRow list \<Rightarrow> nat \<Rightarrow> int" where
  "lastDowntimeAt B docs i =
     (case filter (\<lambda>j. isDowntime B (docs ! j)) (rev [0 ..< Suc i]) of
        [] \<Rightarrow> - 1
      | j # js \<Rightarrow> int j)"

text \<open>The test that appends the row at position \<open>i\<close> to \<open>postDowntimeDocs\<close>.\<close>

definition recordedAt :: "builtins \<Rightarrow> MongoDataRow list \<Rightarrow> nat \<Rightarrow> bool" where
  "recordedAt B docs i =
     (isProduction B (docs ! i) \<and> 0 \<le> lastDowntimeAt B docs i \<and> lastDowntimeAt B docs i < int i)"

definition calculatePostDowntimeDR :: "builtins \<Rightarrow> MongoDataRow list \<Rightarrow> string \<Rightarrow> real" where
  "calculatePostDowntimeDR B documents selected =
     (let mouldFilteredPostDowntimeDocs =
            filter (\<lambda>doc. trim (toString B (orElse (field D17 doc) (JStr []))) = trim selected)
              (postDowntimeDocs B documents);
          postDowntimeRejections = sumValid B D52 mouldFilteredPostDowntimeDocs;
          postDowntimeUnitsProduced = sumValid B D6 mouldFilteredPostDowntimeDocs
      in if postDowntimeUnitsProduced > 0
         then roundTo2 (postDowntimeRejections / postDowntimeUnitsProduced * 100)
         else 0)"

subsection \<open>Total downtime\<close>

definition calculateTotalDowntime :: "builtins \<Rightarrow> MongoDataRow list \<Rightarrow> string \<Rightarrow> real" where
  "calculateTotalDowntime B documents selected =
     (let mouldFilteredDocs = filter (mouldMatches B selected) documents;
          totalDowntimeSeconds =
            sum_list (map (\<lambda>doc. case validNumber B (field D9 doc) of
                                    Some v \<Rightarrow> (if v > 0 then v else 0)
                                  | None \<Rightarrow> 0) mouldFilteredDocs)
      in roundTo2 (totalDowntimeSeconds / 3600))"

subsection \<open>Cycle time\<close>

text \<open>
  The loop over the mould mapping: it leaves at the first row whose trimmed \<open>D0\<close> is the
  selection and whose \<open>D2\<close> is a positive number, and goes on otherwise.
\<close>

fun findCycleTime :: "builtins \<Rightarrow> string \<Rightarrow> MongoDataRow list \<Rightarrow> real" where
  "findCycleTime B selectedMould [] = 0"
| "findCycleTime B selectedMould (doc # rest) =
     (case data doc of
        None \<Rightarrow> findCycleTime B selectedMould rest
      | Some f \<Rightarrow>
          if truthy (D0 f) then
            if trim (toString B (D0 f)) = selectedMould then
              if D2 f \<noteq> JUndefined \<and> D2 f \<noteq> JNull then
                (case Number B (D2 f) of
                   Some cycleTimeValue \<Rightarrow>
                     if cycleTimeValue > 0 then cycleTimeValue
                     else findCycleTime B selectedMould rest
                 | None \<Rightarrow> findCycleTime B selectedMould rest)
              else findCycleTime B selectedMould rest
            else findCycleTime B selectedMould rest
          else findCycleTime B selectedMould rest)"

text \<open>The body of the \<open>try\<close>: what it returns, or what it throws.\<close>

definition fetchCycleTime_try :: "builtins \<Rightarrow> response \<Rightarrow> string \<Rightarrow> exn + real" where
  "fetchCycleTime_try B resp selected =
     (case resp of
        Rejected \<Rightarrow> Inl NetworkError
      | EmptyBody \<Rightarrow> Inl MissingData
      | BareRows rows \<Rightarrow> Inl MissingData
      | NoData \<Rightarrow> Inl MissingData
      | NotAnArray \<Rightarrow> Inl TypeError
      | Rows mongoRows \<Rightarrow> Inr (findCycleTime B (trim selected) mongoRows))"

definition fetchCycleTime :: "builtins \<Rightarrow> response \<Rightarrow> string \<Rightarrow> exn + real" where
  "fetchCycleTime B resp selected =
     (case fetchCycleTime_try B resp selected of
        Inr cycleTimeSeconds \<Rightarrow> Inr cycleTimeSeconds
      | Inl error \<Rightarrow> Inr 0)"

text \<open>
  Two tests of the loop, named: the row's trimmed name is the trimmed selection, and the
  row's \<open>D2\<close> is a usable cycle time (present, a number, above 0). The loop has no test
  for a finite number; the numbers of the model are all finite, so a \<open>D2\<close> that converts to
  an infinite number is outside it.
\<close>

definition nameMatches :: "builtins \<Rightarrow> string \<Rightarrow> MongoDataRow \<Rightarrow> bool" where
  "nameMatches B selected row =
     (truthy (field D0 row) \<and> trim (toString B (field D0 row)) = trim selected)"

definition usableCycleTime :: "builtins \<Rightarrow> MongoDataRow \<Rightarrow> real option" where
  "usableCycleTime B row =
     (case validNumber B (field D2 row) of
        Some v \<Rightarrow> (if v > 0 then Some v else None)
      | None \<Rightarrow> None)"

text \<open>
  The reading of the specification: look at the first row whose name field is exactly the
  trimmed mould identifier, and return its cycle time if that is usable, else 0.
\<close>

definition nameIsExactly :: "builtins \<Rightarrow> string \<Rightarrow> MongoDataRow \<Rightarrow> bool" where
  "nameIsExactly B selected row =
     (truthy (field D0 row) \<and> toString B (field D0 row) = trim selected)"

definition firstMatchCycleTime :: "builtins \<Rightarrow> string \<Rightarrow> MongoDataRow list \<Rightarrow> real" where
  "firstMatchCycleTime B selected rows =
     (case find (nameIsExactly B selected) rows of
        None \<Rightarrow> 0
      | Some row \<Rightarrow> (case usableCycleTime B row of Some v \<Rightarrow> v | None \<Rightarrow> 0))"

text \<open>
  What the loop does: return the cycle time of the first row whose name matches and whose
  cycle time is usable, else 0.
\<close>

definition firstUsableCycleTime :: "builtins \<Rightarrow> string \<Rightarrow> MongoDataRow list \<Rightarrow> real" where
  "firstUsableCycleTime B selected rows =
     (case find (\<lambda>row. nameMatches B selected row \<and> usableCycleTime B row \<noteq> None) rows of
        None \<Rightarrow> 0
      | Some row \<Rightarrow> (case usableCycleTime B row of Some v \<Rightarrow> v | None \<Rightarrow> 0))"

subsection \<open>Mold health index\<close>

definition rejectionPenalty :: "real \<Rightarrow> real \<Rightarrow> real" where
  "rejectionPenalty units rejection =
     (if units > 0 then rejection / units * 100 else 0)"

definition expectedRuntimeHours :: "real \<Rightarrow> real \<Rightarrow> real" where
  "expectedRuntimeHours units cycleTimeSeconds =
     (if cycleTimeSeconds > 0 \<and> units > 0 then cycleTimeSeconds * units / 3600 else 0)"

definition downtimePenalty :: "real \<Rightarrow> real \<Rightarrow> real \<Rightarrow> real" where
  "downtimePenalty units downtime cycleTimeSeconds =
     (if expectedRuntimeHours units cycleTimeSeconds > 0
      then downtime / expectedRuntimeHours units cycleTimeSeconds * 100 else 0)"

definition calculateMoldHealthIndex :: "real \<Rightarrow> real \<Rightarrow> real \<Rightarrow> real \<Rightarrow> real" where
  "calculateMoldHealthIndex units rejection downtime cycleTimeSeconds =
     (let mhi = 100 - (rejectionPenalty units rejection
                       + downtimePenalty units downtime cycleTimeSeconds);
          finalMHI = max 0 mhi
      in roundTo2 finalMHI)"

subsection \<open>Top rejection reasons\<close>

text \<open>
  A JavaScript \<open>Map\<close> is an association list in insertion order; \<open>set\<close> on a present key
  replaces the value in place, on a new key it appends.
\<close>

definition rejectionReasonOf :: "builtins \<Rightarrow> MongoDataRow \<Rightarrow> string" where
  "rejectionReasonOf B doc =
     (let d53Value = field D53 doc in
      if truthy d53Value \<and> trim (toString B d53Value) \<noteq> []
      then trim (toString B d53Value) else ''Unknown Reason'')"

definition skipsRejection :: "builtins \<Rightarrow> MongoDataRow \<Rightarrow> bool" where
  "skipsRejection B doc =
     (let d52Value = field D52 doc; d52Number = Number B d52Value in
      \<not> truthy d52Value \<or> isNaN d52Number \<or> isAtMostZero d52Number)"

text \<open>\<open>Number(D52)\<close> of a row that is not skipped.\<close>

definition rejectionCountOf :: "builtins \<Rightarrow> MongoDataRow \<Rightarrow> real" where
  "rejectionCountOf B doc = (case Number B (field D52 doc) of Some v \<Rightarrow> v | None \<Rightarrow> 0)"

definition addRejection ::
  "builtins \<Rightarrow> (string \<times> real) list \<times> real \<Rightarrow> MongoDataRow
   \<Rightarrow> (string \<times> real) list \<times> real" where
  "addRejection B st doc =
     (case st of (rejectionReasonMap, totalRejectionUnits) \<Rightarrow>
        if skipsRejection B doc then (rejectionReasonMap, totalRejectionUnits)
        else
          let rejectionReason = rejectionReasonOf B doc;
              rejectionCount = rejectionCountOf B doc
          in ((case map_of rejectionReasonMap rejectionReason of
                 Some c \<Rightarrow> AList.update rejectionReason (c + rejectionCount) rejectionReasonMap
               | None \<Rightarrow> AList.update rejectionReason rejectionCount rejectionReasonMap),
              totalRejectionUnits + rejectionCount))"

definition aggregateRejections ::
  "builtins \<Rightarrow> MongoDataRow list \<Rightarrow> string \<Rightarrow> (string \<times> real) list \<times> real" where
  "aggregateRejections B documents selected =
     foldl (addRejection B) ([], 0) (filter (mouldMatches B selected) documents)"

definition calculateTopRejectionReasons ::
  "builtins \<Rightarrow> MongoDataRow list \<Rightarrow> string \<Rightarrow> TopRejectionReason list" where
  "calculateTopRejectionReasons B documents selected =
     (case aggregateRejections B documents selected of
        (rejectionReasonMap, totalRejectionUnits) \<Rightarrow>
          let sortedReasons =
                sort_key (\<lambda>r. - count r)
                  (map (\<lambda>(r, c). \<lparr>reason = r, count = c,
                                   percentage =
                                     (if totalRejectionUnits > 0
                                      then PercentText (c / totalRejectionUnits * 100)
                                      else ZeroPercentText)\<rparr>)
                     rejectionReasonMap)
          in take 3 sortedReasons)"


subsection \<open>A concrete reading of decimal numerals\<close>

text \<open>
  To run the model on concrete rows the three conversions need values. \<open>decimalBuiltins\<close>
  coincides with the language on the strings and numbers used in the examples of this
  theory: a string of decimal digits (surrounded by white space for \<open>Number\<close>, preceded by
  it for \<open>parseFloat\<close>) reads as the natural number it spells, the empty string reads as 0
  under \<open>Number\<close> and as \<open>NaN\<close> under \<open>parseFloat\<close>, and a natural number prints as its
  decimal digits. No property below depends on it.
\<close>

definition digitOf :: "char \<Rightarrow> nat option" where
  "digitOf c = map_of (zip ''0123456789'' [0 ..< 10]) c"

definition digitsValue :: "string \<Rightarrow> real option" where
  "digitsValue s =
     (if s \<noteq> [] \<and> list_all (\<lambda>c. digitOf c \<noteq> None) s
      then Some (of_nat (foldl (\<lambda>a c. 10 * a + (case digitOf c of Some d \<Rightarrow> d | None \<Rightarrow> 0)) 0 s))
      else None)"

fun natDigits :: "nat \<Rightarrow> nat \<Rightarrow> string" where
  "natDigits 0 n = []"
| "natDigits (Suc fuel) n =
     (if n < 10 then [''0123456789'' ! n]
      else natDigits fuel (n div 10) @ [''0123456789'' ! (n mod 10)])"

definition decimalBuiltins :: builtins where
  "decimalBuiltins =
     \<lparr>StringToNumber = (\<lambda>s. if trim s = [] then Some 0 else digitsValue (trim s)),
      NumberToString = (\<lambda>r. if 0 \<le> r \<and> r = of_int \<lfloor>r\<rfloor>
                             then natDigits (Suc (nat \<lfloor>r\<rfloor>)) (nat \<lfloor>r\<rfloor>) else ''NaN''),
      parseFloat = (\<lambda>s. digitsValue (takeWhile (\<lambda>c. digitOf c \<noteq> None)
                                       (dropWhile isWhiteSpace s)))\<rparr>"

text \<open>A row with no \<open>data\<close> fields set, to build examples from.\<close>

definition noFields :: fields where
  "noFields =
     \<lparr>D0 = JUndefined, D2 = JUndefined, D6 = JUndefined, D9 = JUndefined, D10 = JUndefined,
      D17 = JUndefined, D52 = JUndefined, D53 = JUndefined\<rparr>"

definition rowOf :: "fields \<Rightarrow> stamp \<Rightarrow> MongoDataRow" where
  "rowOf f t = \<lparr>data = Some f, timestamp = t, otherStamps = []\<rparr>"

definition dateOf :: "int \<Rightarrow> nat \<Rightarrow> nat \<Rightarrow> int \<Rightarrow> jsdate" where
  "dateOf y m d h = \<lparr>getFullYear = y, getMonth = m, getDate = d, timeInDay = h * 3600000\<rparr>"


subsection \<open>Monthly defect rate\<close>

text \<open>
  A month label such as \<open>Jul 2025\<close> is the pair of the 0-based month and the year. The key
  \<open>YYYY-MM\<close> of a bucket is the pair of the year and the 0-based month; for years of four
  digits the order of the key strings is the order of \<open>monthKeyOrder\<close>.
\<close>

type_synonym monthLabel = "nat \<times> int"

type_synonym monthKey = "int \<times> nat"

definition monthLabelOf :: "jsdate \<Rightarrow> monthLabel" where
  "monthLabelOf d = (getMonth d, getFullYear d)"

definition monthKeyOf :: "jsdate \<Rightarrow> monthKey" where
  "monthKeyOf d = (getFullYear d, getMonth d)"

definition monthKeyOrder :: "monthKey \<Rightarrow> int" where
  "monthKeyOrder k = fst k * 12 + int (snd k)"

record MonthlyDefectRateData =
  month :: monthLabel
  unitsProduced :: real
  defectUnits :: real
  defectRate :: real

record DefectReasonData =
  name :: string
  value' :: real
  count' :: real

record ProductionVsTargetData =
  monthShort :: nat
  production :: real
  target :: real

record MonthBucket =
  bucketUnitsProduced :: real
  bucketDefectCount :: real
  bucketMonth :: monthLabel

type_synonym monthlyDataMap = "(monthKey \<times> MonthBucket) list"

text \<open>
  The two statements that move \<open>currentDate\<close> to the next month:
  \<open>setMonth(getMonth() + 1)\<close>, then \<open>setDate(1)\<close>.
\<close>

definition moveToNextMonth :: "jsdate \<Rightarrow> jsdate" where
  "moveToNextMonth currentDate = setDate (setMonth currentDate (getMonth currentDate + 1)) 1"

definition emptyBucket :: "jsdate \<Rightarrow> MonthBucket" where
  "emptyBucket d = \<lparr>bucketUnitsProduced = 0, bucketDefectCount = 0, bucketMonth = monthLabelOf d\<rparr>"

definition ensureBucket :: "jsdate \<Rightarrow> monthlyDataMap \<Rightarrow> monthlyDataMap" where
  "ensureBucket d m =
     (if map_of m (monthKeyOf d) = None then AList.update (monthKeyOf d) (emptyBucket d) m
      else m)"

function prePopulate :: "jsdate \<Rightarrow> jsdate \<Rightarrow> monthlyDataMap \<Rightarrow> monthlyDataMap" where
  "prePopulate currentDate rangeEnd m =
     (if date_le currentDate rangeEnd
      then prePopulate (moveToNextMonth currentDate) rangeEnd (ensureBucket currentDate m)
      else m)"
  by pat_completeness auto
termination
proof (relation "measure (\<lambda>(c, e, m). nat (monthIndex e - monthIndex c + 1))")
  show "wf (measure (\<lambda>(c, e, m). nat (monthIndex e - monthIndex c + 1)))" by simp
next
  fix currentDate rangeEnd :: jsdate and m :: monthlyDataMap
  assume le: "date_le currentDate rangeEnd"
  have carry: "mm < 12 \<Longrightarrow>
      y * 12 + int mm \<le> fst (carryDay y mm d) * 12 + int (fst (snd (carryDay y mm d)))
      \<and> fst (snd (carryDay y mm d)) < 12" for y mm d
  proof (induction y mm d rule: carryDay.induct)
    case (1 y mm d)
    show ?case
    proof (cases "d \<le> daysInMonth y mm")
      case True
      then show ?thesis using "1.prems" by (simp add: carryDay.simps)
    next
      case False
      show ?thesis
      proof (cases "mm \<ge> 11")
        case True
        have "carryDay y mm d = carryDay (y + 1) 0 (d - daysInMonth y mm)"
          using False True by (subst carryDay.simps) simp
        moreover have "(y + 1) * 12 + int 0
            \<le> fst (carryDay (y + 1) 0 (d - daysInMonth y mm)) * 12
              + int (fst (snd (carryDay (y + 1) 0 (d - daysInMonth y mm))))
            \<and> fst (snd (carryDay (y + 1) 0 (d - daysInMonth y mm))) < 12"
          using "1.IH"(1) [OF False True] by simp
        ultimately show ?thesis using "1.prems" by simp
      next
        case nt: False
        have "carryDay y mm d = carryDay y (mm + 1) (d - daysInMonth y mm)"
          using False nt by (subst carryDay.simps) simp
        moreover have "y * 12 + int (mm + 1)
            \<le> fst (carryDay y (mm + 1) (d - daysInMonth y mm)) * 12
              + int (fst (snd (carryDay y (mm + 1) (d - daysInMonth y mm))))
            \<and> fst (snd (carryDay y (mm + 1) (d - daysInMonth y mm))) < 12"
          using "1.IH"(2) [OF False nt] nt by simp
        ultimately show ?thesis by simp
      qed
    qed
  qed
  obtain y1 m1 d1 where c1:
    "carryDay (getFullYear currentDate + int ((getMonth currentDate + 1) div 12))
       ((getMonth currentDate + 1) mod 12) (getDate currentDate) = (y1, m1, d1)"
    by (cases "carryDay (getFullYear currentDate + int ((getMonth currentDate + 1) div 12))
       ((getMonth currentDate + 1) mod 12) (getDate currentDate)") auto
  have b1: "(getFullYear currentDate + int ((getMonth currentDate + 1) div 12)) * 12
        + int ((getMonth currentDate + 1) mod 12) \<le> y1 * 12 + int m1 \<and> m1 < 12"
    using carry [of "(getMonth currentDate + 1) mod 12"
        "getFullYear currentDate + int ((getMonth currentDate + 1) div 12)" "getDate currentDate"]
      c1 by simp
  have idx: "(getFullYear currentDate + int ((getMonth currentDate + 1) div 12)) * 12
        + int ((getMonth currentDate + 1) mod 12) = monthIndex currentDate + 1"
    by (simp add: monthIndex_def algebra_simps zmod_int zdiv_int)
  have c2: "carryDay (y1 + int (m1 div 12)) (m1 mod 12) 1 = (y1, m1, 1)"
    using b1 by (subst carryDay.simps) (simp add: daysInMonth_def)
  have "monthIndex (moveToNextMonth currentDate) = y1 * 12 + int m1"
    using c1 c2 by (simp add: moveToNextMonth_def setDate_def setMonth_def MakeDay_def monthIndex_def)
  then have "monthIndex currentDate < monthIndex (moveToNextMonth currentDate)"
    using b1 idx by simp
  moreover have "monthIndex currentDate \<le> monthIndex rangeEnd"
    using le by (auto simp: date_le_def)
  ultimately show "((moveToNextMonth currentDate, rangeEnd, ensureBucket currentDate m),
                    (currentDate, rangeEnd, m))
      \<in> measure (\<lambda>(c, e, m). nat (monthIndex e - monthIndex c + 1))"
    by simp
qed

declare prePopulate.simps [simp del]

definition possibleTimestampFields :: "string list" where
  "possibleTimestampFields = [''createdAt'', ''updatedAt'', ''date'', ''time'', ''_ts'', ''ts'']"

fun firstValidStamp :: "(string \<times> stamp) list \<Rightarrow> string list \<Rightarrow> jsdate option" where
  "firstValidStamp other [] = None"
| "firstValidStamp other (f # fs) =
     (case map_of other f of
        Some (Stamp d) \<Rightarrow> Some d
      | _ \<Rightarrow> firstValidStamp other fs)"

definition resolveTimestamp :: "MongoDataRow \<Rightarrow> jsdate option" where
  "resolveTimestamp row =
     (case timestamp row of
        Stamp d \<Rightarrow> Some d
      | BadStamp \<Rightarrow> None
      | NoStamp \<Rightarrow> firstValidStamp (otherStamps row) possibleTimestampFields)"

text \<open>The amount a row adds to a monthly sum: a valid number above 0, else nothing.\<close>

definition positiveAmount :: "builtins \<Rightarrow> jsval \<Rightarrow> real" where
  "positiveAmount B v =
     (case validNumber B v of Some x \<Rightarrow> (if x > 0 then x else 0) | None \<Rightarrow> 0)"

text \<open>
  One step of the aggregation loop. The state is the map of buckets and the variable
  \<open>totalUnitsAggregated\<close>.
\<close>

definition addToMonth ::
  "builtins \<Rightarrow> DateRange \<Rightarrow> monthlyDataMap \<times> real \<Rightarrow> MongoDataRow \<Rightarrow> monthlyDataMap \<times> real" where
  "addToMonth B period st row =
     (case st of (m, totalUnitsAggregated) \<Rightarrow>
        case resolveTimestamp row of
          None \<Rightarrow> (m, totalUnitsAggregated)
        | Some ts \<Rightarrow>
            if date_lt ts (startDate period) \<or> date_lt (endDate period) ts
            then (m, totalUnitsAggregated)
            else
              let m' = ensureBucket ts m;
                  monthData = (case map_of m' (monthKeyOf ts) of
                                 Some b \<Rightarrow> b | None \<Rightarrow> emptyBucket ts);
                  units = positiveAmount B (field D6 row);
                  defects = positiveAmount B (field D52 row)
              in (AList.update (monthKeyOf ts)
                    (monthData\<lparr>bucketUnitsProduced := bucketUnitsProduced monthData + units,
                               bucketDefectCount := bucketDefectCount monthData + defects\<rparr>) m',
                  totalUnitsAggregated + units))"

definition aggregateMonths ::
  "builtins \<Rightarrow> DateRange \<Rightarrow> MongoDataRow list \<Rightarrow> monthlyDataMap \<times> real" where
  "aggregateMonths B period mouldFilteredDocs =
     foldl (addToMonth B period) (prePopulate (startDate period) (endDate period) [], 0)
       mouldFilteredDocs"

definition chartRow :: "MonthBucket \<Rightarrow> MonthlyDefectRateData" where
  "chartRow b =
     \<lparr>month = bucketMonth b, unitsProduced = bucketUnitsProduced b,
      defectUnits = bucketDefectCount b,
      defectRate = (if bucketUnitsProduced b > 0
                    then bucketDefectCount b / bucketUnitsProduced b * 100 else 0)\<rparr>"

definition monthlyChart :: "monthlyDataMap \<Rightarrow> MonthlyDefectRateData list" where
  "monthlyChart m = map (\<lambda>(k, b). chartRow b) (sort_key (\<lambda>(k, b). monthKeyOrder k) m)"

subsection \<open>Generated demonstration data\<close>

function testMonths ::
  "random \<Rightarrow> real \<Rightarrow> real \<Rightarrow> jsdate \<Rightarrow> jsdate \<Rightarrow> nat \<Rightarrow> MonthlyDefectRateData list" where
  "testMonths rnd baseUnits baseDefectRate rangeEnd currentDate monthIndex' =
     (if date_le currentDate rangeEnd then
        (let variation = 0.7 + rnd (2 + 2 * monthIndex') * 0.6;
             units = Math_round (baseUnits * variation);
             rate = max 0.1 (baseDefectRate + (rnd (3 + 2 * monthIndex') - 0.5) * 1.5);
             defects = Math_round (units * (rate / 100))
         in \<lparr>month = monthLabelOf currentDate, unitsProduced = units,
              defectUnits = defects, defectRate = rate\<rparr>
            # (if monthIndex' + 1 > 12 then []
               else testMonths rnd baseUnits baseDefectRate rangeEnd
                      (moveToNextMonth currentDate) (monthIndex' + 1)))
      else [])"
  by pat_completeness auto
termination
  by (relation "measure (\<lambda>(rnd, bu, bd, e, c, i). 13 - i)") auto

declare testMonths.simps [simp del]

definition generateTestMonthlyData ::
  "random \<Rightarrow> DateRange \<Rightarrow> string \<Rightarrow> MonthlyDefectRateData list" where
  "generateTestMonthlyData rnd period selected =
     (let baseUnits = 8000 + rnd 0 * 4000;
          baseDefectRate = 1.5 + rnd 1 * 2
      in testMonths rnd baseUnits baseDefectRate (endDate period) (startDate period) 0)"


definition generateTestKPIData :: "random \<Rightarrow> string \<Rightarrow> string \<Rightarrow> DateRange \<Rightarrow> KPIResult" where
  "generateTestKPIData rnd machineId selected period =
     (let monthlyTestData = generateTestMonthlyData rnd period selected;
          k = 2 + 2 * length monthlyTestData;
          totalUnits = sum_list (map unitsProduced monthlyTestData);
          totalDefectUnits = sum_list (map defectUnits monthlyTestData)
      in \<lparr>totalUnitsProduced = totalUnits,
          totalRejection = totalDefectUnits,
          postDowntimeDR = rnd k * 0.1,
          totalDowntime = 30 + rnd (k + 1) * 20,
          moldHealthIndex = 75 + rnd (k + 2) * 20,
          topRejectionReasons =
            [\<lparr>reason = ''Short Molding'', count = Math_round (totalDefectUnits * 0.6),
              percentage = PercentNumber (60 + rnd (k + 3) * 10)\<rparr>,
             \<lparr>reason = ''Flash'', count = Math_round (totalDefectUnits * 0.25),
              percentage = PercentNumber (20 + rnd (k + 4) * 10)\<rparr>,
             \<lparr>reason = ''Burn Mark'', count = Math_round (totalDefectUnits * 0.15),
              percentage = PercentNumber (10 + rnd (k + 5) * 10)\<rparr>],
          documentCount = 450 + Math_round (rnd (k + 6) * 50),
          dateRange = (startDate period, endDate period),
          machine = machineId,
          mould = selected\<rparr>)"

definition renormalize :: "(string \<times> real) list \<Rightarrow> (string \<times> real) list" where
  "renormalize ds =
     (let totalPercentage = sum_list (map snd ds) in map (\<lambda>(n, p). (n, p / totalPercentage)) ds)"

definition reasonDistribution :: "real \<Rightarrow> (string \<times> real) list" where
  "reasonDistribution totalRejectionUnits =
     (let d0 = [(''Short Molding'', 0.861), (''Black Spot'', 0.139)];
          d1 = (if totalRejectionUnits > 100
                then renormalize (d0 @ [(''Flash'', 0.08), (''Silver Mark'', 0.05)]) else d0);
          d2 = (if totalRejectionUnits > 500
                then renormalize (d1 @ [(''Burn Mark'', 0.03), (''Warpage'', 0.02)]) else d1)
      in d2)"

text \<open>
  The loop that turns the distribution into counts; the last reason takes the remainder.
\<close>

fun distribute :: "real \<Rightarrow> (string \<times> real) list \<Rightarrow> real \<Rightarrow> DefectReasonData list" where
  "distribute totalUnits [] assignedTotal = []"
| "distribute totalUnits [(n, p)] assignedTotal =
     (let c = totalUnits - assignedTotal in
      if c > 0 then [\<lparr>name = n, value' = c / totalUnits * 100, count' = c\<rparr>] else [])"
| "distribute totalUnits ((n, p) # rest) assignedTotal =
     (let c = Math_round (totalUnits * p) in
      (if c > 0 then [\<lparr>name = n, value' = c / totalUnits * 100, count' = c\<rparr>] else [])
      @ distribute totalUnits rest (assignedTotal + c))"

definition generateTestDefectReasonData :: "string \<Rightarrow> real \<Rightarrow> DefectReasonData list" where
  "generateTestDefectReasonData selected totalRejectionUnits =
     (if totalRejectionUnits \<le> 0 then []
      else sort_key (\<lambda>d. - count' d)
             (distribute totalRejectionUnits (reasonDistribution totalRejectionUnits) 0))"

text \<open>
  The four public operations. Each takes what its request to the store yields; the KPI
  operation also takes what the request for the mould mapping yields, and the breakdown
  what the request made by \<open>getTotalRejectionUnits\<close> yields. The \<open>_try\<close> function is the
  body of the \<open>try\<close> block, and the operation itself adds the \<open>catch\<close>.
\<close>

definition calculateKPIs_try ::
  "builtins \<Rightarrow> random \<Rightarrow> response \<Rightarrow> response \<Rightarrow> string \<Rightarrow> string \<Rightarrow> DateRange
   \<Rightarrow> exn + KPIResult" where
  "calculateKPIs_try B rnd resp cycleResp machineId selected period =
     (case resp of
        Rejected \<Rightarrow> Inl NetworkError
      | EmptyBody \<Rightarrow> Inl MissingData
      | BareRows rows \<Rightarrow> Inl MissingData
      | NoData \<Rightarrow> Inl MissingData
      | NotAnArray \<Rightarrow> Inl TypeError
      | Rows mongoRows \<Rightarrow>
          let mouldFilteredDocs = filter (mouldMatches B selected) mongoRows in
          if length mouldFilteredDocs = 0
          then Inr (generateTestKPIData rnd machineId selected period)
          else
            let totalUnits = sumValid B D6 mouldFilteredDocs;
                totalRej = sumValid B D52 mouldFilteredDocs;
                postDR = calculatePostDowntimeDR B mongoRows selected;
                downtime = calculateTotalDowntime B mongoRows selected
            in case fetchCycleTime B cycleResp selected of
                 Inl error \<Rightarrow> Inl error
               | Inr cycleTimeSeconds \<Rightarrow>
                   let mhi = calculateMoldHealthIndex totalUnits totalRej downtime
                               cycleTimeSeconds;
                       reasons = calculateTopRejectionReasons B mongoRows selected;
                       result =
                         \<lparr>totalUnitsProduced = totalUnits,
                          totalRejection = totalRej,
                          postDowntimeDR = postDR,
                          totalDowntime = downtime,
                          moldHealthIndex = mhi,
                          topRejectionReasons = reasons,
                          documentCount = of_nat (length mouldFilteredDocs),
                          dateRange = (adjustStartDateToCycleTime (startDate period),
                                       endDate period),
                          machine = machineId,
                          mould = selected\<rparr>
                   in if totalUnits = 0
                      then Inr (generateTestKPIData rnd machineId selected period)
                      else Inr result)"

definition calculateKPIs ::
  "builtins \<Rightarrow> random \<Rightarrow> response \<Rightarrow> response \<Rightarrow> string \<Rightarrow> string \<Rightarrow> DateRange
   \<Rightarrow> exn + KPIResult" where
  "calculateKPIs B rnd resp cycleResp machineId selected period =
     (case calculateKPIs_try B rnd resp cycleResp machineId selected period of
        Inr result \<Rightarrow> Inr result
      | Inl error \<Rightarrow> Inr (generateTestKPIData rnd machineId selected period))"

text \<open>
  The monthly operation is declared to return the monthly series; on one path it returns the
  rows of \<open>generateTestDefectReasonData\<close> instead, so the model's result is a sum of the two.
\<close>

datatype monthlyResult =
    Series "MonthlyDefectRateData list"
  | ReasonRows "DefectReasonData list"

definition calculateMonthlyDefectRateData_try ::
  "builtins \<Rightarrow> random \<Rightarrow> response \<Rightarrow> string \<Rightarrow> string \<Rightarrow> DateRange \<Rightarrow> exn + monthlyResult" where
  "calculateMonthlyDefectRateData_try B rnd resp machineId selected period =
     (case resp of
        Rejected \<Rightarrow> Inl NetworkError
      | EmptyBody \<Rightarrow> Inr (Series (generateTestMonthlyData rnd period selected))
      | BareRows rows \<Rightarrow> Inr (Series (generateTestMonthlyData rnd period selected))
      | NoData \<Rightarrow> Inr (Series (generateTestMonthlyData rnd period selected))
      | NotAnArray \<Rightarrow> Inl TypeError
      | Rows mongoRows \<Rightarrow>
          let mouldFilteredDocs = filter (mouldMatches B selected) mongoRows in
          if length mouldFilteredDocs = 0
          then Inr (ReasonRows (generateTestDefectReasonData selected 72))
          else
            case aggregateMonths B period mouldFilteredDocs of
              (monthlyDataMap, totalUnitsAggregated) \<Rightarrow>
                if totalUnitsAggregated = 0
                then Inr (Series (generateTestMonthlyData rnd period selected))
                else Inr (Series (monthlyChart monthlyDataMap)))"

definition calculateMonthlyDefectRateData ::
  "builtins \<Rightarrow> random \<Rightarrow> response \<Rightarrow> string \<Rightarrow> string \<Rightarrow> DateRange \<Rightarrow> exn + monthlyResult" where
  "calculateMonthlyDefectRateData B rnd resp machineId selected period =
     (case calculateMonthlyDefectRateData_try B rnd resp machineId selected period of
        Inr result \<Rightarrow> Inr result
      | Inl error \<Rightarrow> Inr (Series (generateTestMonthlyData rnd period selected)))"

subsection \<open>Defect reason breakdown\<close>

definition testTotalDefects :: "random \<Rightarrow> DateRange \<Rightarrow> string \<Rightarrow> real" where
  "testTotalDefects rnd period selected =
     sum_list (map defectUnits (generateTestMonthlyData rnd period selected))"

definition getTotalRejectionUnits_try ::
  "builtins \<Rightarrow> random \<Rightarrow> response \<Rightarrow> string \<Rightarrow> string \<Rightarrow> DateRange \<Rightarrow> exn + real" where
  "getTotalRejectionUnits_try B rnd resp machineId selected period =
     (case resp of
        Rejected \<Rightarrow> Inl NetworkError
      | EmptyBody \<Rightarrow> Inr (testTotalDefects rnd period selected)
      | BareRows rows \<Rightarrow> Inr (testTotalDefects rnd period selected)
      | NoData \<Rightarrow> Inr (testTotalDefects rnd period selected)
      | NotAnArray \<Rightarrow> Inl TypeError
      | Rows mongoRows \<Rightarrow>
          let mouldFilteredDocs = filter (mouldMatches B selected) mongoRows in
          if length mouldFilteredDocs = 0 then Inr (testTotalDefects rnd period selected)
          else Inr (sumValid B D52 mouldFilteredDocs))"

definition getTotalRejectionUnits ::
  "builtins \<Rightarrow> random \<Rightarrow> response \<Rightarrow> string \<Rightarrow> string \<Rightarrow> DateRange \<Rightarrow> exn + real" where
  "getTotalRejectionUnits B rnd resp machineId selected period =
     (case getTotalRejectionUnits_try B rnd resp machineId selected period of
        Inr totalRejection' \<Rightarrow> Inr totalRejection'
      | Inl error \<Rightarrow> Inr (testTotalDefects rnd period selected))"

definition defectReasonOf :: "builtins \<Rightarrow> MongoDataRow \<Rightarrow> string" where
  "defectReasonOf B row =
     (let d53Value = field D53 row in
      if d53Value \<noteq> JUndefined \<and> d53Value \<noteq> JNull then
        (let reasonStr = trim (toString B d53Value) in
         if reasonStr \<noteq> [] \<and> reasonStr \<noteq> ''null'' \<and> reasonStr \<noteq> ''undefined''
         then reasonStr else ''Unknown'')
      else ''Unknown'')"

definition skipsDefect :: "builtins \<Rightarrow> DateRange \<Rightarrow> MongoDataRow \<Rightarrow> bool" where
  "skipsDefect B period row =
     (case timestamp row of
        NoStamp \<Rightarrow> True
      | BadStamp \<Rightarrow> True
      | Stamp ts \<Rightarrow>
          if date_lt ts (startDate period) \<or> date_lt (endDate period) ts then True
          else if field D52 row = JUndefined \<or> field D52 row = JNull then True
          else isNaN (Number B (field D52 row)) \<or> isAtMostZero (Number B (field D52 row)))"

definition addDefect ::
  "builtins \<Rightarrow> DateRange \<Rightarrow> (string \<times> real) list \<times> real \<Rightarrow> MongoDataRow
   \<Rightarrow> (string \<times> real) list \<times> real" where
  "addDefect B period st row =
     (case st of (defectReasonMap, totalRejectionUnits) \<Rightarrow>
        if skipsDefect B period row then (defectReasonMap, totalRejectionUnits)
        else
          let rejectionUnits = rejectionCountOf B row;
              rejectionReason = defectReasonOf B row;
              currentCount = (case map_of defectReasonMap rejectionReason of
                                Some c \<Rightarrow> (if c \<noteq> 0 then c else 0) | None \<Rightarrow> 0)
          in (AList.update rejectionReason (currentCount + rejectionUnits) defectReasonMap,
              totalRejectionUnits + rejectionUnits))"

definition aggregateDefects ::
  "builtins \<Rightarrow> DateRange \<Rightarrow> MongoDataRow list \<Rightarrow> (string \<times> real) list \<times> real" where
  "aggregateDefects B period mouldFilteredDocs =
     foldl (addDefect B period) ([], 0) mouldFilteredDocs"

definition testBreakdown ::
  "builtins \<Rightarrow> random \<Rightarrow> response \<Rightarrow> string \<Rightarrow> string \<Rightarrow> DateRange
   \<Rightarrow> exn + DefectReasonData list" where
  "testBreakdown B rnd totalResp machineId selected period =
     (case getTotalRejectionUnits B rnd totalResp machineId selected period of
        Inl error \<Rightarrow> Inl error
      | Inr totalRejectionUnits \<Rightarrow>
          Inr (generateTestDefectReasonData selected totalRejectionUnits))"

definition calculateDefectReasonBreakdown_try ::
  "builtins \<Rightarrow> random \<Rightarrow> response \<Rightarrow> response \<Rightarrow> string \<Rightarrow> string \<Rightarrow> DateRange
   \<Rightarrow> exn + DefectReasonData list" where
  "calculateDefectReasonBreakdown_try B rnd resp totalResp machineId selected period =
     (case resp of
        Rejected \<Rightarrow> Inl NetworkError
      | EmptyBody \<Rightarrow> testBreakdown B rnd totalResp machineId selected period
      | BareRows rows \<Rightarrow> testBreakdown B rnd totalResp machineId selected period
      | NoData \<Rightarrow> testBreakdown B rnd totalResp machineId selected period
      | NotAnArray \<Rightarrow> Inl TypeError
      | Rows mongoRows \<Rightarrow>
          let mouldFilteredDocs = filter (mouldMatches B selected) mongoRows in
          if length mouldFilteredDocs = 0
          then testBreakdown B rnd totalResp machineId selected period
          else
            case aggregateDefects B period mouldFilteredDocs of
              (defectReasonMap, totalRejectionUnits) \<Rightarrow>
                if totalRejectionUnits = 0 \<or> length defectReasonMap = 0
                then testBreakdown B rnd totalResp machineId selected period
                else Inr (sort_key (\<lambda>d. - count' d)
                           (map (\<lambda>(r, c). \<lparr>name = r,
                                            value' = (if totalRejectionUnits > 0
                                                      then c / totalRejectionUnits * 100 else 0),
                                            count' = c\<rparr>)
                              defectReasonMap)))"

definition calculateDefectReasonBreakdown ::
  "builtins \<Rightarrow> random \<Rightarrow> response \<Rightarrow> response \<Rightarrow> string \<Rightarrow> string \<Rightarrow> DateRange
   \<Rightarrow> exn + DefectReasonData list" where
  "calculateDefectReasonBreakdown B rnd resp totalResp machineId selected period =
     (case calculateDefectReasonBreakdown_try B rnd resp totalResp machineId selected period of
        Inr result \<Rightarrow> Inr result
      | Inl error \<Rightarrow> testBreakdown B rnd totalResp machineId selected period)"

subsection \<open>Production against target\<close>

text \<open>\<open>parseFloat(String(v || 0))\<close>\<close>

definition parsedAmount :: "builtins \<Rightarrow> jsval \<Rightarrow> real option" where
  "parsedAmount B v = parseFloat B (toString B (orElse v (JNum 0)))"

definition isNonNegative :: "real option \<Rightarrow> bool" where
  "isNonNegative n = (case n of None \<Rightarrow> False | Some v \<Rightarrow> v \<ge> 0)"

definition keepsForTarget :: "builtins \<Rightarrow> string \<Rightarrow> MongoDataRow \<Rightarrow> bool" where
  "keepsForTarget B selected row =
     (let mouldFromData = field D17 row;
          prod = parsedAmount B (field D6 row);
          tgt = parsedAmount B (field D10 row);
          isValidMould = (mouldFromData = JStr selected);
          hasProductionData = (\<not> isNaN prod \<and> isNonNegative prod);
          hasTargetData = (\<not> isNaN tgt \<and> isNonNegative tgt)
      in if \<not> isValidMould then False
         else if \<not> hasProductionData \<and> \<not> hasTargetData then False
         else True)"

record TargetBucket =
  productionSum :: real
  targetSum :: real
  rowCount :: nat

definition addToTarget ::
  "builtins \<Rightarrow> (monthLabel \<times> TargetBucket) list \<Rightarrow> MongoDataRow
   \<Rightarrow> (monthLabel \<times> TargetBucket) list" where
  "addToTarget B m row =
     (case timestamp row of
        NoStamp \<Rightarrow> m
      | BadStamp \<Rightarrow> m
      | Stamp d \<Rightarrow>
          let monthKey = monthLabelOf d;
              prod = parsedAmount B (field D6 row);
              tgt = parsedAmount B (field D10 row);
              m' = (if map_of m monthKey = None
                    then AList.update monthKey
                           \<lparr>productionSum = 0, targetSum = 0, rowCount = 0\<rparr> m
                    else m);
              monthData = (case map_of m' monthKey of
                             Some b \<Rightarrow> b
                           | None \<Rightarrow> \<lparr>productionSum = 0, targetSum = 0, rowCount = 0\<rparr>)
          in AList.update monthKey
               \<lparr>productionSum = productionSum monthData + (case prod of None \<Rightarrow> 0 | Some v \<Rightarrow> v),
                targetSum = targetSum monthData + (case tgt of None \<Rightarrow> 0 | Some v \<Rightarrow> v),
                rowCount = rowCount monthData + 1\<rparr> m')"

definition targetChart :: "(monthLabel \<times> TargetBucket) list \<Rightarrow> ProductionVsTargetData list" where
  "targetChart m =
     sort_key (\<lambda>d. monthShort d)
       (map (\<lambda>(monthKey, b). \<lparr>monthShort = fst monthKey,
                                 production = Math_round (productionSum b),
                                 target = Math_round (targetSum b)\<rparr>) m)"

definition generateTestProductionVsTargetData ::
  "random \<Rightarrow> string \<Rightarrow> ProductionVsTargetData list" where
  "generateTestProductionVsTargetData rnd selected =
     (let baseProduction = (if selected = ''PP TRAY NEW'' then 1100 else 1200);
          baseTarget = baseProduction + 100
      in map (\<lambda>i. \<lparr>monthShort = i,
                     production = baseProduction + of_int \<lfloor>rnd (2 * i) * 200\<rfloor>,
                     target = baseTarget + of_int \<lfloor>rnd (2 * i + 1) * 150\<rfloor>\<rparr>)
           [0 ..< 7])"

definition calculateProductionVsTargetData_try ::
  "builtins \<Rightarrow> random \<Rightarrow> response \<Rightarrow> string \<Rightarrow> string \<Rightarrow> DateRange
   \<Rightarrow> exn + ProductionVsTargetData list" where
  "calculateProductionVsTargetData_try B rnd resp machineId selected period =
     (case (case resp of
              Rejected \<Rightarrow> Inl NetworkError
            | EmptyBody \<Rightarrow> Inl InvalidFormat
            | BareRows rows \<Rightarrow> Inr rows
            | NoData \<Rightarrow> Inl InvalidFormat
            | NotAnArray \<Rightarrow> Inl InvalidFormat
            | Rows rows \<Rightarrow> Inr rows) of
        Inl error \<Rightarrow> Inl error
      | Inr apiData \<Rightarrow>
          if length apiData = 0 then Inr (generateTestProductionVsTargetData rnd selected)
          else
            let filteredData = filter (keepsForTarget B selected) apiData in
            if length filteredData = 0
            then Inr (generateTestProductionVsTargetData rnd selected)
            else
              let productionVsTargetData = targetChart (foldl (addToTarget B) [] filteredData)
              in if length productionVsTargetData > 0 then Inr productionVsTargetData
                 else Inr (generateTestProductionVsTargetData rnd selected))"

definition calculateProductionVsTargetData ::
  "builtins \<Rightarrow> random \<Rightarrow> response \<Rightarrow> string \<Rightarrow> string \<Rightarrow> DateRange
   \<Rightarrow> exn + ProductionVsTargetData list" where
  "calculateProductionVsTargetData B rnd resp machineId selected period =
     (case calculateProductionVsTargetData_try B rnd resp machineId selected period of
        Inr result \<Rightarrow> Inr result
      | Inl error \<Rightarrow> Inr (generateTestProductionVsTargetData rnd selected))"


text \<open>
  A fault of the store or the transport: the request fails, or the payload does not parse
  into an object that carries an array of rows.
\<close>

definition transportFault :: "response \<Rightarrow> bool" where
  "transportFault resp =
     (case resp of
        Rejected \<Rightarrow> True
      | EmptyBody \<Rightarrow> True
      | NoData \<Rightarrow> True
      | NotAnArray \<Rightarrow> True
      | BareRows rows \<Rightarrow> False
      | Rows rows \<Rightarrow> False)"


section \<open>Properties of the date service\<close>

lemma newDate_in_month:
  "m < 12 \<Longrightarrow> d \<le> daysInMonth (if 0 \<le> y \<and> y \<le> 99 then 1900 + y else y) m \<Longrightarrow>
   newDate y m d h =
     \<lparr>getFullYear = (if 0 \<le> y \<and> y \<le> 99 then 1900 + y else y), getMonth = m, getDate = d,
      timeInDay = h * 3600000\<rparr>"
  by (simp add: newDate_def MakeDay_def carryDay.simps)

lemma quarter_dates:
  "getQuarterDates 1 y = Inr (mkQuarter 1 y 0 2 31)"
  "getQuarterDates 2 y = Inr (mkQuarter 2 y 3 5 30)"
  "getQuarterDates 3 y = Inr (mkQuarter 3 y 6 8 30)"
  "getQuarterDates 4 y = Inr (mkQuarter 4 y 9 11 31)"
  by (simp_all add: getQuarterDates_def)

text \<open>
  Claim C8. A fixed quarter selector ignores the clock and the custom dates: for a given
  reference year, \<open>q1\<close> .. \<open>q4\<close> resolve to the first day of the quarter at 08:00 and the
  last day of the quarter at 08:00, whatever \<open>now\<close> is. For the year 2025, \<open>q1\<close> is
  1 January 2025 08:00 to 31 March 2025 08:00.
\<close>

theorem fixed_quarter_ignores_clock:
  "getDateRangeForTimePeriod now ''q1'' cs ce (Some 2025) =
     Inr \<lparr>startDate = \<lparr>getFullYear = 2025, getMonth = 0, getDate = 1, timeInDay = 28800000\<rparr>,
          endDate = \<lparr>getFullYear = 2025, getMonth = 2, getDate = 31, timeInDay = 28800000\<rparr>,
          label = FixedQuarterLabel 1 2025\<rparr>
   \<and> getDateRangeForTimePeriod now ''q1'' cs ce (Some y) =
       Inr \<lparr>startDate = newDate y 0 1 8, endDate = newDate y 2 31 8,
            label = FixedQuarterLabel 1 y\<rparr>
   \<and> getDateRangeForTimePeriod now ''q2'' cs ce (Some y) =
       Inr \<lparr>startDate = newDate y 3 1 8, endDate = newDate y 5 30 8,
            label = FixedQuarterLabel 2 y\<rparr>
   \<and> getDateRangeForTimePeriod now ''q3'' cs ce (Some y) =
       Inr \<lparr>startDate = newDate y 6 1 8, endDate = newDate y 8 30 8,
            label = FixedQuarterLabel 3 y\<rparr>
   \<and> getDateRangeForTimePeriod now ''q4'' cs ce (Some y) =
       Inr \<lparr>startDate = newDate y 9 1 8, endDate = newDate y 11 31 8,
            label = FixedQuarterLabel 4 y\<rparr>"
proof -
  have d1: "newDate 2025 0 1 8 =
      \<lparr>getFullYear = 2025, getMonth = 0, getDate = 1, timeInDay = 28800000\<rparr>"
    by (simp add: newDate_in_month daysInMonth_def)
  have d2: "newDate 2025 2 31 8 =
      \<lparr>getFullYear = 2025, getMonth = 2, getDate = 31, timeInDay = 28800000\<rparr>"
    by (simp add: newDate_in_month daysInMonth_def)
  have fixed: "fixedQuarterRange 1 z =
        Inr \<lparr>startDate = newDate z 0 1 8, endDate = newDate z 2 31 8,
             label = FixedQuarterLabel 1 z\<rparr>"
      "fixedQuarterRange 2 z =
        Inr \<lparr>startDate = newDate z 3 1 8, endDate = newDate z 5 30 8,
             label = FixedQuarterLabel 2 z\<rparr>"
      "fixedQuarterRange 3 z =
        Inr \<lparr>startDate = newDate z 6 1 8, endDate = newDate z 8 30 8,
             label = FixedQuarterLabel 3 z\<rparr>"
      "fixedQuarterRange 4 z =
        Inr \<lparr>startDate = newDate z 9 1 8, endDate = newDate z 11 31 8,
             label = FixedQuarterLabel 4 z\<rparr>" for z
    by (simp_all add: fixedQuarterRange_def quarter_dates mkQuarter_def)
  show ?thesis
    using d1 d2 by (simp add: getDateRangeForTimePeriod_def fixed)
qed

theorem fixed_quarter_ignores_clock_witness:
  "getDateRangeForTimePeriod
     \<lparr>getFullYear = 2026, getMonth = 10, getDate = 2, timeInDay = 0\<rparr> ''q1'' None None
     (Some 2025) =
   getDateRangeForTimePeriod
     \<lparr>getFullYear = 2025, getMonth = 1, getDate = 14, timeInDay = 50000000\<rparr> ''q1''
     (Some \<lparr>getFullYear = 2025, getMonth = 1, getDate = 3, timeInDay = 0\<rparr>) None (Some 2025)"
  using fixed_quarter_ignores_clock
    [of "\<lparr>getFullYear = 2026, getMonth = 10, getDate = 2, timeInDay = 0\<rparr>" None None 2025]
    fixed_quarter_ignores_clock
    [of "\<lparr>getFullYear = 2025, getMonth = 1, getDate = 14, timeInDay = 50000000\<rparr>"
        "Some \<lparr>getFullYear = 2025, getMonth = 1, getDate = 3, timeInDay = 0\<rparr>" None 2025]
  by simp

text \<open>
  Claim C9. \<open>getQuarterDates\<close> throws the invalid-quarter error for every quarter number
  below 1 or above 4 and returns no range there; for 1, 2, 3 and 4 it returns the quarter's
  record and does not throw.
\<close>

theorem getQuarterDates_throws_outside_1_to_4:
  "(q < 1 \<or> 4 < q \<longrightarrow> getQuarterDates q y = Inl (InvalidQuarter q)) \<and>
   (1 \<le> q \<and> q \<le> 4 \<longrightarrow>
      (\<exists>info. getQuarterDates q y = Inr info \<and> quarter info = q \<and> year info = y))"
proof (intro conjI impI)
  assume "q < 1 \<or> 4 < q"
  then show "getQuarterDates q y = Inl (InvalidQuarter q)"
    by (auto simp: getQuarterDates_def)
next
  assume "1 \<le> q \<and> q \<le> 4"
  then have "q = 1 \<or> q = 2 \<or> q = 3 \<or> q = 4" by arith
  then show "\<exists>info. getQuarterDates q y = Inr info \<and> quarter info = q \<and> year info = y"
    by (auto simp: getQuarterDates_def mkQuarter_def)
qed

theorem getQuarterDates_throws_outside_1_to_4_witness:
  "getQuarterDates 5 2025 = Inl (InvalidQuarter 5) \<and>
   getQuarterDates 0 2025 = Inl (InvalidQuarter 0) \<and>
   (\<exists>info. getQuarterDates 3 2025 = Inr info \<and> quarter info = 3 \<and> year info = 2025)"
  using getQuarterDates_throws_outside_1_to_4 [of 5 2025]
    getQuarterDates_throws_outside_1_to_4 [of 0 2025]
    getQuarterDates_throws_outside_1_to_4 [of 3 2025]
  by simp

section \<open>Properties of the mold health index\<close>






section \<open>Properties of the post-downtime scan\<close>

lemma set_insertByTime: "set (insertByTime x ys) = insert x (set ys)"
  by (induction ys) auto

lemma set_sortByTime: "set (sortByTime rows) = set rows"
  by (induction rows) (simp_all add: sortByTime_def set_insertByTime)

lemma set_sortedDocs: "set (sortedDocs documents) \<subseteq> set documents"
  by (auto simp: sortedDocs_def set_sortByTime)

lemma lastDowntimeAt_append:
  "i < length xs \<Longrightarrow> lastDowntimeAt B (xs @ [x]) i = lastDowntimeAt B xs i"
proof -
  assume a: "i < length xs"
  have "filter (\<lambda>j. isDowntime B ((xs @ [x]) ! j)) (rev [0 ..< Suc i])
      = filter (\<lambda>j. isDowntime B (xs ! j)) (rev [0 ..< Suc i])"
    using a by (intro filter_cong) (auto simp: nth_append)
  then show ?thesis by (simp only: lastDowntimeAt_def)
qed

lemma lastDowntimeAt_last:
  "lastDowntimeAt B (xs @ [x]) (length xs) =
     (if isDowntime B x then int (length xs)
      else if xs = [] then - 1 else lastDowntimeAt B xs (length xs - 1))"
proof (cases "xs = []")
  case True
  then show ?thesis by (simp add: lastDowntimeAt_def)
next
  case False
  then obtain n where n: "length xs = Suc n" by (cases xs) auto
  have "filter (\<lambda>j. isDowntime B ((xs @ [x]) ! j)) (rev [0 ..< Suc n])
      = filter (\<lambda>j. isDowntime B (xs ! j)) (rev [0 ..< Suc n])"
    using n by (intro filter_cong) (auto simp: nth_append)
  then show ?thesis using False n
    by (simp add: lastDowntimeAt_def nth_append)
qed

lemma scanDocs_positions:
  "scanDocs B s =
     (int (length s),
      (if s = [] then - 1 else lastDowntimeAt B s (length s - 1)),
      map (nth s) (filter (recordedAt B s) [0 ..< length s]))"
proof (induction s rule: rev_induct)
  case Nil
  show ?case by (simp add: scanDocs_def)
next
  case (snoc x xs)
  have old: "map (nth (xs @ [x])) (filter (recordedAt B (xs @ [x])) [0 ..< length xs])
           = map (nth xs) (filter (recordedAt B xs) [0 ..< length xs])"
  proof -
    have "filter (recordedAt B (xs @ [x])) [0 ..< length xs] = filter (recordedAt B xs) [0 ..< length xs]"
      by (intro filter_cong) (auto simp: recordedAt_def nth_append lastDowntimeAt_append)
    moreover have "map (nth (xs @ [x])) (filter (recordedAt B xs) [0 ..< length xs])
       = map (nth xs) (filter (recordedAt B xs) [0 ..< length xs])"
      by (intro map_cong) (auto simp: nth_append)
    ultimately show ?thesis by simp
  qed
  have new: "recordedAt B (xs @ [x]) (length xs) =
      (isProduction B x \<and> 0 \<le> lastDowntimeAt B (xs @ [x]) (length xs)
       \<and> lastDowntimeAt B (xs @ [x]) (length xs) < int (length xs))"
    by (simp add: recordedAt_def)
  have last: "(if isDowntime B x then int (length xs)
               else if xs = [] then - 1 else lastDowntimeAt B xs (length xs - 1))
             = lastDowntimeAt B (xs @ [x]) (length xs)"
    by (simp only: lastDowntimeAt_last)
  have step: "scanDocs B (xs @ [x]) = scanStep B (scanDocs B xs) x"
    by (simp add: scanDocs_def)
  have "scanStep B (scanDocs B xs) x =
      (int (length xs) + 1, lastDowntimeAt B (xs @ [x]) (length xs),
       if recordedAt B (xs @ [x]) (length xs)
       then map (nth xs) (filter (recordedAt B xs) [0 ..< length xs]) @ [x]
       else map (nth xs) (filter (recordedAt B xs) [0 ..< length xs]))"
    unfolding snoc.IH scanStep_def new by (simp only: prod.case Let_def last)
  also have "\<dots> = (int (length (xs @ [x])),
      (if xs @ [x] = [] then - 1 else lastDowntimeAt B (xs @ [x]) (length (xs @ [x]) - 1)),
      map (nth (xs @ [x])) (filter (recordedAt B (xs @ [x])) [0 ..< length (xs @ [x])]))"
    using old by simp
  finally show ?case using step by simp
qed

lemma no_downtime_lastDowntimeAt:
  assumes "\<forall>doc\<in>set s. \<not> isDowntime B doc" "i < length s"
  shows "lastDowntimeAt B s i = - 1"
proof -
  have "filter (\<lambda>j. isDowntime B (s ! j)) (rev [0 ..< Suc i]) = []"
    using assms by (auto simp: filter_empty_conv)
  then show ?thesis by (simp add: lastDowntimeAt_def)
qed

text \<open>
  Claim C4. When no document at all is classified as downtime, no document is recorded as
  post-downtime production and the rate is 0. In general the recorded documents are exactly
  those at the positions of the scan whose document is classified as production and which
  lie strictly after the most recent downtime position seen so far, of which there is one.
\<close>

theorem post_downtime_candidates:
  "((\<forall>doc\<in>set documents. \<not> isDowntime B doc) \<longrightarrow>
      postDowntimeDocs B documents = [] \<and> calculatePostDowntimeDR B documents selected = 0)
   \<and> postDowntimeDocs B documents =
       map (nth (sortedDocs documents))
         (filter (recordedAt B (sortedDocs documents)) [0 ..< length (sortedDocs documents)])
   \<and> (\<forall>i. recordedAt B (sortedDocs documents) i \<longleftrightarrow>
          isProduction B (sortedDocs documents ! i)
          \<and> 0 \<le> lastDowntimeAt B (sortedDocs documents) i
          \<and> lastDowntimeAt B (sortedDocs documents) i < int i)"
proof -
  let ?s = "sortedDocs documents"
  have pos: "postDowntimeDocs B documents = map (nth ?s) (filter (recordedAt B ?s) [0 ..< length ?s])"
    by (simp add: postDowntimeDocs_def scanDocs_positions)
  have none: "postDowntimeDocs B documents = []" if h: "\<forall>doc\<in>set documents. \<not> isDowntime B doc"
  proof -
    have "\<forall>doc\<in>set ?s. \<not> isDowntime B doc" using h set_sortedDocs by blast
    then have "filter (recordedAt B ?s) [0 ..< length ?s] = []"
      by (auto simp: filter_empty_conv recordedAt_def no_downtime_lastDowntimeAt)
    then show ?thesis using pos by simp
  qed
  have rate: "calculatePostDowntimeDR B documents selected = 0"
    if "postDowntimeDocs B documents = []"
    using that by (simp add: calculatePostDowntimeDR_def sumValid_def)
  have test: "\<forall>i. recordedAt B ?s i \<longleftrightarrow>
          isProduction B (?s ! i) \<and> 0 \<le> lastDowntimeAt B ?s i \<and> lastDowntimeAt B ?s i < int i"
    by (simp add: recordedAt_def)
  show ?thesis
  proof (intro conjI impI)
    assume h: "\<forall>doc\<in>set documents. \<not> isDowntime B doc"
    show "postDowntimeDocs B documents = []" using none [OF h] .
    show "calculatePostDowntimeDR B documents selected = 0" using rate [OF none [OF h]] .
  next
    show "postDowntimeDocs B documents = map (nth ?s) (filter (recordedAt B ?s) [0 ..< length ?s])"
      using pos .
  next
    show "\<forall>i. recordedAt B ?s i \<longleftrightarrow>
          isProduction B (?s ! i) \<and> 0 \<le> lastDowntimeAt B ?s i \<and> lastDowntimeAt B ?s i < int i"
      using test .
  qed
qed

theorem post_downtime_candidates_witness:
  "postDowntimeDocs decimalBuiltins
        [rowOf (noFields\<lparr>D2 := JStr ''Running'', D6 := JNum 100, D52 := JNum 2,
                         D17 := JStr ''TRAY-A''\<rparr>) (Stamp (dateOf 2025 6 2 9)),
         rowOf (noFields\<lparr>D6 := JStr ''50'', D52 := JNum 1,
                         D17 := JStr ''TRAY-A''\<rparr>) (Stamp (dateOf 2025 6 1 9))] = []
   \<and> calculatePostDowntimeDR decimalBuiltins
        [rowOf (noFields\<lparr>D2 := JStr ''Running'', D6 := JNum 100, D52 := JNum 2,
                         D17 := JStr ''TRAY-A''\<rparr>) (Stamp (dateOf 2025 6 2 9)),
         rowOf (noFields\<lparr>D6 := JStr ''50'', D52 := JNum 1,
                         D17 := JStr ''TRAY-A''\<rparr>) (Stamp (dateOf 2025 6 1 9))] ''TRAY-A'' = 0"
proof -
  let ?docs = "[rowOf (noFields\<lparr>D2 := JStr ''Running'', D6 := JNum 100, D52 := JNum 2,
                                   D17 := JStr ''TRAY-A''\<rparr>) (Stamp (dateOf 2025 6 2 9)),
                  rowOf (noFields\<lparr>D6 := JStr ''50'', D52 := JNum 1,
                                   D17 := JStr ''TRAY-A''\<rparr>) (Stamp (dateOf 2025 6 1 9))]"
  have h: "\<forall>doc\<in>set ?docs. \<not> isDowntime decimalBuiltins doc"
    by code_simp
  show ?thesis
    using h post_downtime_candidates [of ?docs decimalBuiltins "''TRAY-A''"] by blast
qed

text \<open>
  The boundary on an example: a production row before every downtime row is not recorded, a
  row that is classified as both (status 10 contains 1 and 0) is not recorded, and the
  production row after them is.
\<close>

lemma strictly_after_example:
  "map timestamp (postDowntimeDocs decimalBuiltins
     [rowOf (noFields\<lparr>D2 := JStr ''run''\<rparr>) (Stamp (dateOf 2025 6 1 9)),
      rowOf (noFields\<lparr>D2 := JStr ''stop''\<rparr>) (Stamp (dateOf 2025 6 1 10)),
      rowOf (noFields\<lparr>D2 := JNum 10\<rparr>) (Stamp (dateOf 2025 6 1 11)),
      rowOf (noFields\<lparr>D2 := JStr ''run''\<rparr>) (Stamp (dateOf 2025 6 1 12))])
   = [Stamp (dateOf 2025 6 1 12)]"
  by code_simp

section \<open>Properties of the cycle-time lookup\<close>

lemma findCycleTime_first_usable:
  "findCycleTime B (trim selected) rows = firstUsableCycleTime B selected rows"
proof (induction rows)
  case Nil
  show ?case by (simp add: firstUsableCycleTime_def)
next
  case (Cons doc rest)
  show ?case
  proof (cases "nameMatches B selected doc \<and> usableCycleTime B doc \<noteq> None")
    case True
    then obtain v where v: "usableCycleTime B doc = Some v" by auto
    from True v have "findCycleTime B (trim selected) (doc # rest) = v"
      by (auto simp: nameMatches_def usableCycleTime_def validNumber_def field_def
               split: option.splits if_splits)
    moreover have "firstUsableCycleTime B selected (doc # rest) = v"
      using True v by (auto simp add: firstUsableCycleTime_def)
    ultimately show ?thesis by simp
  next
    case False
    then have "findCycleTime B (trim selected) (doc # rest) = findCycleTime B (trim selected) rest"
      by (auto simp: nameMatches_def usableCycleTime_def validNumber_def field_def
               split: option.splits if_splits)
    moreover have "firstUsableCycleTime B selected (doc # rest) = firstUsableCycleTime B selected rest"
      using False by (auto simp add: firstUsableCycleTime_def)
    ultimately show ?thesis using Cons.IH by simp
  qed
qed

text \<open>
  Claim C5, as amended. For a mould mapping whose cycle-time fields do not convert to an
  infinite number, \<open>fetchCycleTime\<close> returns the cycle time of the first row whose name,
  trimmed, is the trimmed mould identifier and whose cycle-time field is present and a
  finite number above 0; a row that matches by name but has no usable cycle time is passed
  over. It returns 0 when there is no such row and when the request fails or its payload
  has no usable rows. It never throws.
\<close>

theorem fetchCycleTime_first_usable_match:
  "fetchCycleTime B (Rows rows) selected = Inr (firstUsableCycleTime B selected rows)
   \<and> fetchCycleTime B Rejected selected = Inr 0
   \<and> fetchCycleTime B EmptyBody selected = Inr 0
   \<and> fetchCycleTime B (BareRows rows) selected = Inr 0
   \<and> fetchCycleTime B NoData selected = Inr 0
   \<and> fetchCycleTime B NotAnArray selected = Inr 0
   \<and> (firstUsableCycleTime B selected rows = 0 \<or>
      (\<exists>row\<in>set rows. nameMatches B selected row \<and>
         usableCycleTime B row = Some (firstUsableCycleTime B selected rows) \<and>
         0 < firstUsableCycleTime B selected rows))"
proof -
  have shape: "firstUsableCycleTime B selected rows = 0 \<or>
      (\<exists>row\<in>set rows. nameMatches B selected row \<and>
         usableCycleTime B row = Some (firstUsableCycleTime B selected rows) \<and>
         0 < firstUsableCycleTime B selected rows)"
  proof (cases "find (\<lambda>row. nameMatches B selected row \<and> usableCycleTime B row \<noteq> None) rows")
    case None
    then show ?thesis by (simp add: firstUsableCycleTime_def)
  next
    case (Some row)
    then have r: "row \<in> set rows" "nameMatches B selected row" "usableCycleTime B row \<noteq> None"
      by (auto simp: find_Some_iff)
    then obtain v where v: "usableCycleTime B row = Some v" by auto
    then have "0 < v" by (auto simp: usableCycleTime_def split: option.splits if_splits)
    moreover have "firstUsableCycleTime B selected rows = v"
      using Some v by (simp add: firstUsableCycleTime_def)
    ultimately show ?thesis using r v by auto
  qed
  show ?thesis
    using shape
    by (simp add: fetchCycleTime_def fetchCycleTime_try_def findCycleTime_first_usable)
qed

theorem fetchCycleTime_first_usable_match_witness:
  "fetchCycleTime decimalBuiltins
     (Rows [rowOf (noFields\<lparr>D0 := JStr ''TRAY-B'', D2 := JNum 40\<rparr>) NoStamp,
            rowOf (noFields\<lparr>D0 := JStr '' TRAY-A '', D2 := JStr ''abc''\<rparr>) NoStamp,
            rowOf (noFields\<lparr>D0 := JStr ''TRAY-A'', D2 := JStr ''30''\<rparr>) NoStamp,
            rowOf (noFields\<lparr>D0 := JStr ''TRAY-A'', D2 := JNum 25\<rparr>) NoStamp]) ''TRAY-A ''
   = Inr 30"
proof -
  have "firstUsableCycleTime decimalBuiltins ''TRAY-A ''
     [rowOf (noFields\<lparr>D0 := JStr ''TRAY-B'', D2 := JNum 40\<rparr>) NoStamp,
      rowOf (noFields\<lparr>D0 := JStr '' TRAY-A '', D2 := JStr ''abc''\<rparr>) NoStamp,
      rowOf (noFields\<lparr>D0 := JStr ''TRAY-A'', D2 := JStr ''30''\<rparr>) NoStamp,
      rowOf (noFields\<lparr>D0 := JStr ''TRAY-A'', D2 := JNum 25\<rparr>) NoStamp] = 30"
    by code_simp
  then show ?thesis
    using fetchCycleTime_first_usable_match [of decimalBuiltins
      "[rowOf (noFields\<lparr>D0 := JStr ''TRAY-B'', D2 := JNum 40\<rparr>) NoStamp,
        rowOf (noFields\<lparr>D0 := JStr '' TRAY-A '', D2 := JStr ''abc''\<rparr>) NoStamp,
        rowOf (noFields\<lparr>D0 := JStr ''TRAY-A'', D2 := JStr ''30''\<rparr>) NoStamp,
        rowOf (noFields\<lparr>D0 := JStr ''TRAY-A'', D2 := JNum 25\<rparr>) NoStamp]" "''TRAY-A ''"]
    by simp
qed

text \<open>
  Claim C5 as stated fails: the first row whose name is the mould identifier has no cycle
  time, so the claim gives 0; the loop goes on, takes the next row, whose name is the
  identifier between blanks, and returns its cycle time 30.
\<close>

theorem fetchCycleTime_not_first_match_counterexample:
  "fetchCycleTime decimalBuiltins
     (Rows [rowOf (noFields\<lparr>D0 := JStr ''TRAY-A''\<rparr>) NoStamp,
            rowOf (noFields\<lparr>D0 := JStr '' TRAY-A '', D2 := JNum 30\<rparr>) NoStamp]) ''TRAY-A''
     = Inr 30
   \<and> firstMatchCycleTime decimalBuiltins ''TRAY-A''
       [rowOf (noFields\<lparr>D0 := JStr ''TRAY-A''\<rparr>) NoStamp,
        rowOf (noFields\<lparr>D0 := JStr '' TRAY-A '', D2 := JNum 30\<rparr>) NoStamp] = 0"
  by code_simp

section \<open>Properties of the rejection-reason aggregations\<close>














section \<open>The mould filter of the production-against-target path\<close>

text \<open>
  Claim C7 asks every mould filter to compare the trimmed mould field with the trimmed
  selection. The filter shared by the other paths does; the filter of
  \<open>calculateProductionVsTargetData\<close> compares the untrimmed field with the untrimmed
  selection. A row whose mould field is \<open>TRAY-A\<close> followed by a blank is selected by the
  shared filter and rejected by this one, so the operation falls back to generated data;
  without the blank the same row is kept and charted.
\<close>

theorem target_filter_does_not_trim:
  "mouldMatches decimalBuiltins ''TRAY-A''
     (rowOf (noFields\<lparr>D6 := JNum 10, D10 := JNum 12, D17 := JStr ''TRAY-A ''\<rparr>)
        (Stamp (dateOf 2025 1 10 9)))
   \<and> \<not> keepsForTarget decimalBuiltins ''TRAY-A''
       (rowOf (noFields\<lparr>D6 := JNum 10, D10 := JNum 12, D17 := JStr ''TRAY-A ''\<rparr>)
          (Stamp (dateOf 2025 1 10 9)))
   \<and> keepsForTarget decimalBuiltins ''TRAY-A''
       (rowOf (noFields\<lparr>D6 := JNum 10, D10 := JNum 12, D17 := JStr ''TRAY-A''\<rparr>)
          (Stamp (dateOf 2025 1 10 9)))
   \<and> calculateProductionVsTargetData decimalBuiltins (\<lambda>k. 0)
       (Rows [rowOf (noFields\<lparr>D6 := JNum 10, D10 := JNum 12, D17 := JStr ''TRAY-A ''\<rparr>)
                (Stamp (dateOf 2025 1 10 9))]) ''M1'' ''TRAY-A''
       \<lparr>startDate = dateOf 2025 0 1 8, endDate = dateOf 2025 2 31 8,
         label = FixedQuarterLabel 1 2025\<rparr>
     = Inr (generateTestProductionVsTargetData (\<lambda>k. 0) ''TRAY-A'')
   \<and> calculateProductionVsTargetData decimalBuiltins (\<lambda>k. 0)
       (Rows [rowOf (noFields\<lparr>D6 := JNum 10, D10 := JNum 12, D17 := JStr ''TRAY-A''\<rparr>)
                (Stamp (dateOf 2025 1 10 9))]) ''M1'' ''TRAY-A''
       \<lparr>startDate = dateOf 2025 0 1 8, endDate = dateOf 2025 2 31 8,
         label = FixedQuarterLabel 1 2025\<rparr>
     = Inr [\<lparr>monthShort = 1, production = 10, target = 12\<rparr>]"
  by code_simp

section \<open>The months seeded by the monthly aggregation\<close>

text \<open>
  Claim C1 asks for one bucket for every calendar month inside the range. For the custom
  range from 31 January 2025 to 31 March 2025 the step to the next month, taken from
  31 January, lands on 1 March (\<open>setMonth\<close> overflows the 28 days of February before
  \<open>setDate(1)\<close> runs), so no bucket is seeded for February and the series has no entry
  for it.
\<close>

theorem prepopulation_skips_february:
  "getDateRangeForTimePeriod (dateOf 2025 5 15 11) ''custom''
       (Some (dateOf 2025 0 31 0)) (Some (dateOf 2025 2 31 0)) (Some 2025)
     = Inr \<lparr>startDate = dateOf 2025 0 31 8, endDate = dateOf 2025 2 31 8,
            label = CustomLabel (dateOf 2025 0 31 8) (dateOf 2025 2 31 8)\<rparr>
   \<and> moveToNextMonth (dateOf 2025 0 31 8) = dateOf 2025 2 1 8
   \<and> map fst (prePopulate (dateOf 2025 0 31 8) (dateOf 2025 2 31 8) []) = [(2025, 0), (2025, 2)]
   \<and> calculateMonthlyDefectRateData decimalBuiltins (\<lambda>k. 0)
       (Rows [rowOf (noFields\<lparr>D6 := JNum 100, D17 := JStr ''TRAY-A'', D52 := JNum 2\<rparr>)
                (Stamp (dateOf 2025 2 10 9))]) ''M1'' ''TRAY-A''
       \<lparr>startDate = dateOf 2025 0 31 8, endDate = dateOf 2025 2 31 8,
         label = CustomLabel (dateOf 2025 0 31 8) (dateOf 2025 2 31 8)\<rparr>
     = Inr (Series [\<lparr>month = (0, 2025), unitsProduced = 0, defectUnits = 0, defectRate = 0\<rparr>,
                    \<lparr>month = (2, 2025), unitsProduced = 100, defectUnits = 2, defectRate = 2\<rparr>])"
  by code_simp

section \<open>The KPI total against the monthly series\<close>

text \<open>
  Claim C10 asks the total units of the KPI result to be the sum of \<open>unitsProduced\<close> over
  the monthly series computed from the same documents, as the code's own validation
  comment does. With one dated document of 100 units and one undated document of 50 units
  of the selected mould, both operations are on the real-data path; the KPI total is 150
  and the monthly series sums to 100.
\<close>

theorem kpi_total_differs_from_monthly_series:
  "map_sum id totalUnitsProduced
     (calculateKPIs decimalBuiltins (\<lambda>k. 0)
        (Rows [rowOf (noFields\<lparr>D6 := JNum 100, D17 := JStr ''TRAY-A''\<rparr>)
                 (Stamp (dateOf 2025 1 10 9)),
               rowOf (noFields\<lparr>D6 := JNum 50, D17 := JStr ''TRAY-A''\<rparr>) NoStamp])
        Rejected ''M1'' ''TRAY-A''
        \<lparr>startDate = dateOf 2025 0 1 8, endDate = dateOf 2025 2 31 8,
          label = FixedQuarterLabel 1 2025\<rparr>) = Inr 150
   \<and> calculateMonthlyDefectRateData decimalBuiltins (\<lambda>k. 0)
        (Rows [rowOf (noFields\<lparr>D6 := JNum 100, D17 := JStr ''TRAY-A''\<rparr>)
                 (Stamp (dateOf 2025 1 10 9)),
               rowOf (noFields\<lparr>D6 := JNum 50, D17 := JStr ''TRAY-A''\<rparr>) NoStamp])
        ''M1'' ''TRAY-A''
        \<lparr>startDate = dateOf 2025 0 1 8, endDate = dateOf 2025 2 31 8,
          label = FixedQuarterLabel 1 2025\<rparr>
     = Inr (Series [\<lparr>month = (0, 2025), unitsProduced = 0, defectUnits = 0, defectRate = 0\<rparr>,
                    \<lparr>month = (1, 2025), unitsProduced = 100, defectUnits = 0, defectRate = 0\<rparr>,
                    \<lparr>month = (2, 2025), unitsProduced = 0, defectUnits = 0, defectRate = 0\<rparr>])"
  by code_simp

section \<open>Faults of the store\<close>

lemma getTotalRejectionUnits_returns:
  "\<exists>t. getTotalRejectionUnits B rnd resp machineId selected period = Inr t"
  by (cases "getTotalRejectionUnits_try B rnd resp machineId selected period")
     (simp_all add: getTotalRejectionUnits_def)

lemma getTotalRejectionUnits_fault:
  "transportFault resp \<Longrightarrow>
   getTotalRejectionUnits B rnd resp machineId selected period
     = Inr (testTotalDefects rnd period selected)"
  by (cases resp)
     (simp_all add: transportFault_def getTotalRejectionUnits_def getTotalRejectionUnits_try_def)

lemma testBreakdown_returns:
  "\<exists>t. getTotalRejectionUnits B rnd totalResp machineId selected period = Inr t
       \<and> testBreakdown B rnd totalResp machineId selected period
           = Inr (generateTestDefectReasonData selected t)"
  using getTotalRejectionUnits_returns [of B rnd totalResp machineId selected period]
  by (auto simp: testBreakdown_def)

lemma calculateKPIs_returns:
  "\<exists>r. calculateKPIs B rnd resp cycleResp machineId selected period = Inr r"
  by (cases "calculateKPIs_try B rnd resp cycleResp machineId selected period")
     (simp_all add: calculateKPIs_def)

lemma calculateMonthlyDefectRateData_returns:
  "\<exists>r. calculateMonthlyDefectRateData B rnd resp machineId selected period = Inr r"
  by (cases "calculateMonthlyDefectRateData_try B rnd resp machineId selected period")
     (simp_all add: calculateMonthlyDefectRateData_def)

lemma calculateDefectReasonBreakdown_returns:
  "\<exists>r. calculateDefectReasonBreakdown B rnd resp totalResp machineId selected period = Inr r"
proof (cases "calculateDefectReasonBreakdown_try B rnd resp totalResp machineId selected period")
  case (Inl e)
  then show ?thesis
    using testBreakdown_returns [of B rnd totalResp machineId selected period]
    by (auto simp: calculateDefectReasonBreakdown_def)
next
  case (Inr r)
  then show ?thesis by (simp add: calculateDefectReasonBreakdown_def)
qed

lemma calculateProductionVsTargetData_returns:
  "\<exists>r. calculateProductionVsTargetData B rnd resp machineId selected period = Inr r"
  by (cases "calculateProductionVsTargetData_try B rnd resp machineId selected period")
     (simp_all add: calculateProductionVsTargetData_def)

lemma breakdown_fault:
  assumes "transportFault resp"
  shows "\<exists>t. getTotalRejectionUnits B rnd totalResp machineId selected period = Inr t
       \<and> calculateDefectReasonBreakdown B rnd resp totalResp machineId selected period
           = Inr (generateTestDefectReasonData selected t)"
  using assms testBreakdown_returns [of B rnd totalResp machineId selected period]
  by (cases resp)
     (auto simp: transportFault_def calculateDefectReasonBreakdown_def
        calculateDefectReasonBreakdown_try_def)

text \<open>
  Claim C2. Whatever the store yields, each of the four public operations returns a result
  and throws nothing. On a fault of the store or the transport (the request fails, or the
  payload carries no array of rows) \<open>calculateKPIs\<close> returns the generated KPI record,
  \<open>calculateMonthlyDefectRateData\<close> a generated monthly series,
  \<open>calculateDefectReasonBreakdown\<close> the generated breakdown for the total that
  \<open>getTotalRejectionUnits\<close> returns (itself generated when its own request faults), and
  \<open>calculateProductionVsTargetData\<close> the generated production-against-target rows. The
  second request of \<open>calculateKPIs\<close>, for the cycle time, returns 0 on a fault.
\<close>

theorem public_operations_never_throw:
  "(\<exists>r. calculateKPIs B rnd resp cycleResp machineId selected period = Inr r)
   \<and> (\<exists>r. calculateMonthlyDefectRateData B rnd resp machineId selected period = Inr r)
   \<and> (\<exists>r. calculateDefectReasonBreakdown B rnd resp totalResp machineId selected period = Inr r)
   \<and> (\<exists>r. calculateProductionVsTargetData B rnd resp machineId selected period = Inr r)
   \<and> (transportFault resp \<longrightarrow>
        calculateKPIs B rnd resp cycleResp machineId selected period
          = Inr (generateTestKPIData rnd machineId selected period)
        \<and> calculateMonthlyDefectRateData B rnd resp machineId selected period
          = Inr (Series (generateTestMonthlyData rnd period selected))
        \<and> (\<exists>t. getTotalRejectionUnits B rnd totalResp machineId selected period = Inr t
             \<and> calculateDefectReasonBreakdown B rnd resp totalResp machineId selected period
                 = Inr (generateTestDefectReasonData selected t))
        \<and> calculateProductionVsTargetData B rnd resp machineId selected period
          = Inr (generateTestProductionVsTargetData rnd selected))
   \<and> (transportFault totalResp \<longrightarrow>
        getTotalRejectionUnits B rnd totalResp machineId selected period
          = Inr (testTotalDefects rnd period selected))
   \<and> (\<exists>c. fetchCycleTime B cycleResp selected = Inr c)
   \<and> (transportFault cycleResp \<longrightarrow> fetchCycleTime B cycleResp selected = Inr 0)"
proof -
  have kpi: "calculateKPIs B rnd resp cycleResp machineId selected period
          = Inr (generateTestKPIData rnd machineId selected period)" if "transportFault resp"
    using that by (cases resp) (simp_all add: transportFault_def calculateKPIs_def calculateKPIs_try_def)
  have monthly: "calculateMonthlyDefectRateData B rnd resp machineId selected period
          = Inr (Series (generateTestMonthlyData rnd period selected))" if "transportFault resp"
    using that
    by (cases resp)
       (simp_all add: transportFault_def calculateMonthlyDefectRateData_def
          calculateMonthlyDefectRateData_try_def)
  have target: "calculateProductionVsTargetData B rnd resp machineId selected period
          = Inr (generateTestProductionVsTargetData rnd selected)" if "transportFault resp"
    using that
    by (cases resp)
       (simp_all add: transportFault_def calculateProductionVsTargetData_def
          calculateProductionVsTargetData_try_def)
  have cyc: "\<exists>c. fetchCycleTime B cycleResp selected = Inr c"
    by (cases "fetchCycleTime_try B cycleResp selected") (simp_all add: fetchCycleTime_def)
  have cyc0: "fetchCycleTime B cycleResp selected = Inr 0" if "transportFault cycleResp"
    using that
    by (cases cycleResp) (simp_all add: transportFault_def fetchCycleTime_def fetchCycleTime_try_def)
  show ?thesis
    using calculateKPIs_returns [of B rnd resp cycleResp machineId selected period]
      calculateMonthlyDefectRateData_returns [of B rnd resp machineId selected period]
      calculateDefectReasonBreakdown_returns [of B rnd resp totalResp machineId selected period]
      calculateProductionVsTargetData_returns [of B rnd resp machineId selected period]
      kpi monthly target cyc cyc0
      breakdown_fault [of resp B rnd totalResp machineId selected period]
      getTotalRejectionUnits_fault [of totalResp B rnd machineId selected period]
    by (intro conjI impI) blast+
qed

theorem public_operations_never_throw_witness:
  "calculateKPIs decimalBuiltins (\<lambda>k. 0) Rejected Rejected ''M1'' ''TRAY-A''
      \<lparr>startDate = dateOf 2025 0 1 8, endDate = dateOf 2025 2 31 8,
        label = FixedQuarterLabel 1 2025\<rparr>
     = Inr (generateTestKPIData (\<lambda>k. 0) ''M1'' ''TRAY-A''
             \<lparr>startDate = dateOf 2025 0 1 8, endDate = dateOf 2025 2 31 8,
               label = FixedQuarterLabel 1 2025\<rparr>)
   \<and> calculateMonthlyDefectRateData decimalBuiltins (\<lambda>k. 0) Rejected ''M1'' ''TRAY-A''
      \<lparr>startDate = dateOf 2025 0 1 8, endDate = dateOf 2025 2 31 8,
        label = FixedQuarterLabel 1 2025\<rparr>
     = Inr (Series (generateTestMonthlyData (\<lambda>k. 0)
             \<lparr>startDate = dateOf 2025 0 1 8, endDate = dateOf 2025 2 31 8,
               label = FixedQuarterLabel 1 2025\<rparr> ''TRAY-A''))
   \<and> calculateProductionVsTargetData decimalBuiltins (\<lambda>k. 0) Rejected ''M1'' ''TRAY-A''
      \<lparr>startDate = dateOf 2025 0 1 8, endDate = dateOf 2025 2 31 8,
        label = FixedQuarterLabel 1 2025\<rparr>
     = Inr (generateTestProductionVsTargetData (\<lambda>k. 0) ''TRAY-A'')"
proof -
  have f: "transportFault Rejected" by (simp add: transportFault_def)
  show ?thesis
    using f public_operations_never_throw [of decimalBuiltins "\<lambda>k. 0" Rejected Rejected "''M1''"
      "''TRAY-A''" "\<lparr>startDate = dateOf 2025 0 1 8, endDate = dateOf 2025 2 31 8,
        label = FixedQuarterLabel 1 2025\<rparr>" Rejected]
    by blast
qed

end
